theory Spec2Isabelle
  imports Complex_Main "HOL-Library.AList"
begin

section \<open>Alert management of the DEX monitor\<close>

text \<open>
  A shallow embedding of \<^verbatim>\<open>src/dex_monitor/alerts/alert_manager.py\<close> (class
  \<^verbatim>\<open>AlertManager\<close>).

  Conventions of the embedding.
  \<^item> A Python \<^verbatim>\<open>float\<close> is a \<open>real\<close>: arithmetic is exact, rounding, infinities
    and NaN are outside the model.
  \<^item> A \<^verbatim>\<open>datetime\<close> is an \<open>int\<close>, the number of microseconds since the epoch (the
    resolution of \<^verbatim>\<open>datetime\<close>), and a \<^verbatim>\<open>timedelta\<close> is a number of microseconds.
  \<^item> A \<^verbatim>\<open>dict\<close> is an association list with distinct keys in insertion order:
    \<open>map_of\<close> reads it, \<open>AList.update\<close> is \<^verbatim>\<open>d[k] = v\<close> (in place for a key that is
    present, at the end for a new one), \<open>AList.delete\<close> is \<^verbatim>\<open>del d[k]\<close>.
  \<^item> The methods are coroutines; one call is modelled as running to completion, so the
    interleaving of two calls at an \<^verbatim>\<open>await\<close> is outside the model.
  \<^item> A method that mutates \<^verbatim>\<open>self\<close> and may raise returns the raised exception, if
    any, together with the manager as the mutation left it.
  \<^item> The values a call obtains from \<^verbatim>\<open>datetime.utcnow()\<close> and \<^verbatim>\<open>uuid.uuid4()\<close> are
    inputs of the call (record \<open>readings\<close>).
  \<^item> The persistence sink and the callbacks are the parts that can raise; what they raise
    may or may not be an instance of \<^verbatim>\<open>Exception\<close>, the class the two handlers of the
    manager catch.
  \<^item> Names are those of the source; the leading underscore of a private method is
    dropped, and the alerts a rule builds are named \<open>depeg_alert\<close>, \<open>volume_alert\<close>,
    \<open>liquidity_alert\<close> and \<open>price_change_alert\<close>.
\<close>

subsection \<open>Data model\<close>

type_synonym time = int

definition minutes :: "int \<Rightarrow> time" where
  "minutes n = n * 60000000"

text \<open>
  What a call can raise. \<open>Exception msg\<close> is an instance of \<^verbatim>\<open>Exception\<close> (or of a
  subclass); \<open>BaseException msg\<close> is an exception outside that class, such as
  \<^verbatim>\<open>asyncio.CancelledError\<close>, \<^verbatim>\<open>KeyboardInterrupt\<close> or \<^verbatim>\<open>SystemExit\<close>, which a handler
  \<^verbatim>\<open>except Exception\<close> does not catch.
\<close>

datatype py_exception = Exception string | BaseException string

fun isinstance_Exception :: "py_exception \<Rightarrow> bool" where
  "isinstance_Exception (Exception msg) = True"
| "isinstance_Exception (BaseException msg) = False"

fun str_of_exception :: "py_exception \<Rightarrow> string" where
  "str_of_exception (Exception msg) = msg"
| "str_of_exception (BaseException msg) = msg"

text \<open>
  Modelled from the spec: the classes of \<^verbatim>\<open>core/models.py\<close>, a module the manager
  imports and whose source is absent. Fields are the ones the spec's data model lists and
  the manager and \<^verbatim>\<open>tests/test_models.py\<close> use; \<open>pair_name\<close> is \<^verbatim>\<open>symbol0/symbol1\<close>.
\<close>

datatype event_type =
  SWAP | LIQUIDITY_ADD | LIQUIDITY_REMOVE | PRICE_CHANGE | DEPEG_ALERT | VOLUME_SPIKE

datatype alert_severity = LOW | MEDIUM | HIGH | CRITICAL

fun severity_value :: "alert_severity \<Rightarrow> string" where
  "severity_value LOW = ''low''"
| "severity_value MEDIUM = ''medium''"
| "severity_value HIGH = ''high''"
| "severity_value CRITICAL = ''critical''"

record token =
  symbol :: string
  address :: string
  decimals :: int
  token_name :: string
  current_price :: "real option"

record trading_pair =
  token0 :: token
  token1 :: token
  pool_address :: string
  fee_tier :: real

definition pair_name :: "trading_pair \<Rightarrow> string" where
  "pair_name p = symbol (token0 p) @ ''/'' @ symbol (token1 p)"

record swap_event =
  se_timestamp :: time
  se_pair :: trading_pair
  se_token_in :: token
  se_token_out :: token
  se_amount_in :: real
  se_amount_out :: real
  se_price :: real
  se_transaction_hash :: string
  se_block_number :: int

record liquidity_event =
  le_timestamp :: time
  le_pair :: trading_pair
  le_event_type :: event_type
  le_liquidity_delta :: real
  le_provider :: string

record price_data =
  pd_timestamp :: time
  pd_token :: token
  pd_price_usd :: real
  pd_price_change_24h :: "real option"
  pd_volume_24h :: "real option"

text \<open>
  \<^verbatim>\<open>process_event\<close> takes \<^verbatim>\<open>event: Any\<close>; \<open>Unrecognized\<close> stands for every object that
  is none of the three event classes.
\<close>

datatype event =
  Swap swap_event
| Liquidity liquidity_event
| Price price_data
| Unrecognized

text \<open>
  A formatted message is kept as its parts: literal text, and a number together with the
  format specification the f-string applies to it. The values of the \<^verbatim>\<open>data\<close>
  dictionary are strings, numbers or \<^verbatim>\<open>None\<close>.
\<close>

datatype message_part = Text string | Float string real

datatype data_value = DStr string | DNum real | DNone

datatype alert_extra =
  Base
| Depeg (dp_token: token) (expected_price: real) (actual_price: real)
    (deviation_percent: real) (dp_pair: trading_pair)
| Volume (vol_pair: trading_pair) (current_volume: real) (average_volume: real)
    (spike_multiplier: real)

record alert =
  al_id :: string
  al_timestamp :: time
  al_event_type :: event_type
  al_severity :: alert_severity
  al_title :: string
  al_message :: "message_part list"
  al_data :: "(string \<times> data_value) list"
  al_resolved :: bool
  al_resolved_at :: "time option"
  al_extra :: alert_extra

text \<open>
  Modelled from the spec: \<^verbatim>\<open>Alert.resolve()\<close> of \<^verbatim>\<open>core/models.py\<close> (resolution sets
  \<^verbatim>\<open>resolved=true\<close> and \<^verbatim>\<open>resolved_at=now\<close>).
\<close>

definition resolve :: "time \<Rightarrow> alert \<Rightarrow> alert" where
  "resolve now a = a\<lparr>al_resolved := True, al_resolved_at := Some now\<rparr>"

subsection \<open>The manager\<close>

record price_sample =
  ps_timestamp :: time
  ps_price :: real

record volume_sample =
  vs_timestamp :: time
  vs_volume :: real

datatype log_level = ERROR | INFO

text \<open>
  \<open>'w\<close> is the state of everything outside the manager that the persistence sink and the
  registered callbacks act on. \<open>db_insert_alert\<close> is \<^verbatim>\<open>self.db_manager.insert_alert\<close>
  (the source of \<^verbatim>\<open>data/database.py\<close> is absent, so the sink is a parameter);
  like a callback it may raise. \<open>logged\<close> collects what the manager passes to
  \<^verbatim>\<open>logger\<close>.
\<close>

type_synonym 'w effect = "'w \<Rightarrow> py_exception option \<times> 'w"

record 'w alert_manager =
  world :: 'w
  db_insert_alert :: "alert \<Rightarrow> 'w effect"
  logged :: "(log_level \<times> string) list"
  active_alerts :: "(string \<times> alert) list"
  alert_callbacks :: "(alert \<Rightarrow> 'w effect) list"
  price_history :: "(string \<times> price_sample list) list"
  volume_history :: "(string \<times> volume_sample list) list"
  depeg_threshold :: real
  price_change_threshold :: real
  volume_spike_threshold :: real
  alert_cooldown :: "(string \<times> time) list"
  cooldown_duration :: time

text \<open>The clock and identifier values one call reads, named by the place that reads them.\<close>

record readings =
  now_check :: time
  now_stamp :: time
  now_mark :: time
  depeg_uuid :: string
  volume_uuid :: string
  liquidity_uuid :: string
  change_uuid :: string

subsubsection \<open>Bounded history\<close>

text \<open>
  \<^verbatim>\<open>deque(maxlen=n).append(x)\<close>: the element is added on the right, and when the deque
  is then longer than \<open>n\<close> the leftmost element is discarded.
\<close>

definition deque_append :: "nat \<Rightarrow> 'a list \<Rightarrow> 'a \<Rightarrow> 'a list" where
  "deque_append maxlen d x = (let d' = d @ [x] in if length d' > maxlen then tl d' else d')"

text \<open>
  \<^verbatim>\<open>defaultdict(lambda: deque(maxlen=n))\<close>: reading a key that is absent first stores an
  empty deque under it.
\<close>

definition history_touch :: "string \<Rightarrow> (string \<times> 'a list) list \<Rightarrow> (string \<times> 'a list) list" where
  "history_touch k h = (case map_of h k of None \<Rightarrow> h @ [(k, [])] | Some d \<Rightarrow> h)"

definition history_get :: "(string \<times> 'a list) list \<Rightarrow> string \<Rightarrow> 'a list" where
  "history_get h k = (case map_of h k of None \<Rightarrow> [] | Some d \<Rightarrow> d)"

definition history_append :: "nat \<Rightarrow> string \<Rightarrow> 'a \<Rightarrow> (string \<times> 'a list) list \<Rightarrow> (string \<times> 'a list) list" where
  "history_append maxlen k x h =
     (let h' = history_touch k h in AList.update k (deque_append maxlen (history_get h' k) x) h')"

subsubsection \<open>Construction and registration\<close>

text \<open>
  \<^verbatim>\<open>config.get(key, default)\<close> on the loaded configuration, seen as a map from dotted keys
  to numbers.
\<close>

definition config_get :: "(string \<rightharpoonup> real) \<Rightarrow> string \<Rightarrow> real \<Rightarrow> real" where
  "config_get cfg key dflt = (case cfg key of None \<Rightarrow> dflt | Some v \<Rightarrow> v)"

definition new_alert_manager :: "(string \<rightharpoonup> real) \<Rightarrow> (alert \<Rightarrow> 'w effect) \<Rightarrow> 'w \<Rightarrow> 'w alert_manager" where
  "new_alert_manager cfg sink w =
     \<lparr> world = w,
       db_insert_alert = sink,
       logged = [],
       active_alerts = [],
       alert_callbacks = [],
       price_history = [],
       volume_history = [],
       depeg_threshold = config_get cfg ''alerts.depeg_threshold'' (5 / 100),
       price_change_threshold = config_get cfg ''alerts.price_change_threshold'' (10 / 100),
       volume_spike_threshold = config_get cfg ''alerts.volume_spike_threshold'' 2,
       alert_cooldown = [],
       cooldown_duration = minutes 10 \<rparr>"


subsubsection \<open>Cooldown\<close>

definition is_on_cooldown :: "time \<Rightarrow> string \<Rightarrow> 'w alert_manager \<Rightarrow> bool" where
  "is_on_cooldown now key m =
     (case map_of (alert_cooldown m) key of
        None \<Rightarrow> False
      | Some fired \<Rightarrow> now - fired < cooldown_duration m)"

subsubsection \<open>Emission\<close>

text \<open>
  The loop over \<^verbatim>\<open>self.alert_callbacks\<close> with its \<^verbatim>\<open>try/except Exception\<close>: an instance
  of \<^verbatim>\<open>Exception\<close> is logged and the loop goes on, any other exception leaves the loop
  and the method.
\<close>

fun notify_callbacks ::
  "(alert \<Rightarrow> 'w effect) list \<Rightarrow> alert \<Rightarrow> 'w alert_manager \<Rightarrow> py_exception option \<times> 'w alert_manager" where
  "notify_callbacks [] a m = (None, m)"
| "notify_callbacks (callback # rest) a m =
     (case callback a (world m) of
        (None, w) \<Rightarrow> notify_callbacks rest a (m\<lparr>world := w\<rparr>)
      | (Some e, w) \<Rightarrow>
          if isinstance_Exception e then
            notify_callbacks rest a
              (m\<lparr>world := w,
                 logged := logged m @ [(ERROR, ''Error in alert callback: '' @ str_of_exception e)]\<rparr>)
          else (Some e, m\<lparr>world := w\<rparr>))"

definition emit_alert :: "alert \<Rightarrow> 'w alert_manager \<Rightarrow> py_exception option \<times> 'w alert_manager" where
  "emit_alert a m =
     (let m1 = m\<lparr>active_alerts := AList.update (al_id a) a (active_alerts m)\<rparr> in
      case db_insert_alert m1 a (world m1) of
        (Some e, w) \<Rightarrow> (Some e, m1\<lparr>world := w\<rparr>)
      | (None, w) \<Rightarrow>
          (case notify_callbacks (alert_callbacks m1) a (m1\<lparr>world := w\<rparr>) of
             (Some e, m2) \<Rightarrow> (Some e, m2)
           | (None, m2) \<Rightarrow>
               (None, m2\<lparr>logged := logged m2 @
                  [(INFO, ''Alert generated: '' @ al_title a @ '' ('' @ severity_value (al_severity a) @ '')'')]\<rparr>)))"

subsubsection \<open>Rules\<close>

definition stablecoins :: "string list" where
  "stablecoins = [''USDC'', ''USDT'', ''DAI'', ''FRAX'']"

text \<open>
  The pair \<^verbatim>\<open>_check_stablecoin_depeg\<close> builds for display, around the token of the update.
  The constructors of \<^verbatim>\<open>core/models.py\<close> are taken to store their arguments; what a
  \<^verbatim>\<open>__post_init__\<close> there may derive from them is not modelled.
\<close>

definition mock_usdt :: token where
  "mock_usdt =
     \<lparr> symbol = ''USDT'', address = ''0xdac17f958d2ee523a2206206994597c13d831ec7'',
       decimals = 6, token_name = ''Tether USD'', current_price = None \<rparr>"

definition mock_pair :: "token \<Rightarrow> trading_pair" where
  "mock_pair t =
     \<lparr> token0 = t, token1 = mock_usdt,
       pool_address = ''0x3416cf6c708da44db2624d63ea0aaef7113527c6'', fee_tier = 1 / 10000 \<rparr>"

definition depeg_severity :: "real \<Rightarrow> alert_severity" where
  "depeg_severity deviation =
     (if deviation > 20 / 100 then CRITICAL
      else if deviation > 10 / 100 then HIGH
      else MEDIUM)"

definition depeg_alert :: "readings \<Rightarrow> price_data \<Rightarrow> real \<Rightarrow> trading_pair \<Rightarrow> alert" where
  "depeg_alert rd pd deviation relevant_pair =
     \<lparr> al_id = depeg_uuid rd,
       al_timestamp = pd_timestamp pd,
       al_event_type = DEPEG_ALERT,
       al_severity = depeg_severity deviation,
       al_title = ''Token Depeg Alert: '' @ symbol (pd_token pd),
       al_message =
         [Text (symbol (pd_token pd)), Text '' has depegged by '', Float ''.2f'' (deviation * 100),
          Text ''%. Expected: $'', Float ''.4f'' 1, Text '', Actual: $'', Float ''.4f'' (pd_price_usd pd)],
       al_data = [],
       al_resolved = False,
       al_resolved_at = None,
       al_extra = Depeg (pd_token pd) 1 (pd_price_usd pd) (deviation * 100) relevant_pair \<rparr>"

definition check_stablecoin_depeg ::
  "readings \<Rightarrow> price_data \<Rightarrow> 'w alert_manager \<Rightarrow> py_exception option \<times> 'w alert_manager" where
  "check_stablecoin_depeg rd pd m =
     (let expected = 1;
          actual = pd_price_usd pd;
          deviation = \<bar>actual - expected\<bar> / expected
      in
      if deviation > depeg_threshold m then
        (let cooldown_key = ''depeg_'' @ symbol (pd_token pd) in
         if is_on_cooldown (now_check rd) cooldown_key m then (None, m)
         else
           (let relevant_pair =
                  (if symbol (pd_token pd) = ''USDC'' then Some (mock_pair (pd_token pd)) else None)
            in
            case relevant_pair of
              None \<Rightarrow> (None, m)
            | Some rp \<Rightarrow>
                (case emit_alert (depeg_alert rd pd deviation rp) m of
                   (Some e, m') \<Rightarrow> (Some e, m')
                 | (None, m') \<Rightarrow>
                     (None, m'\<lparr>alert_cooldown :=
                                 AList.update cooldown_key (now_mark rd) (alert_cooldown m')\<rparr>))))
      else (None, m))"

definition pair_key :: "trading_pair \<Rightarrow> string" where
  "pair_key p = pair_name p @ ''_'' @ pool_address p"

definition volume_alert :: "readings \<Rightarrow> trading_pair \<Rightarrow> real \<Rightarrow> real \<Rightarrow> alert" where
  "volume_alert rd p cur avg =
     (let mult = cur / avg in
      \<lparr> al_id = volume_uuid rd,
        al_timestamp = now_stamp rd,
        al_event_type = VOLUME_SPIKE,
        al_severity = (if mult > 5 then HIGH else MEDIUM),
        al_title = ''Volume Spike Alert: '' @ pair_name p,
        al_message =
          [Text ''Volume spike detected in '', Text (pair_name p), Text ''. Current: $'',
           Float '',.2f'' cur, Text '', Average: $'', Float '',.2f'' avg, Text '' ('',
           Float ''.1f'' mult, Text ''x normal)''],
        al_data = [],
        al_resolved = False,
        al_resolved_at = None,
        al_extra = Volume p cur avg mult \<rparr>)"

text \<open>
  \<^verbatim>\<open>volume_data[-10:-1]\<close> is \<open>butlast (drop (length volume_data - 10) volume_data)\<close> for a
  list of any length. The division by \<^verbatim>\<open>len(recent_volumes)\<close> raises on an empty list.
\<close>

definition check_volume_spike ::
  "readings \<Rightarrow> trading_pair \<Rightarrow> real \<Rightarrow> 'w alert_manager \<Rightarrow> py_exception option \<times> 'w alert_manager" where
  "check_volume_spike rd p cur m0 =
     (let m = m0\<lparr>volume_history := history_touch (pair_key p) (volume_history m0)\<rparr>;
          volume_data = history_get (volume_history m) (pair_key p)
      in
      if length volume_data < 10 then (None, m)
      else
        (let recent_volumes = map vs_volume (butlast (drop (length volume_data - 10) volume_data)) in
         if recent_volumes = [] then (Some (Exception ''division by zero''), m)
         else
           (let avg = sum_list recent_volumes / real (length recent_volumes) in
            if avg > 0 \<and> cur > avg * volume_spike_threshold m then
              (let cooldown_key = ''volume_spike_'' @ pool_address p in
               if is_on_cooldown (now_check rd) cooldown_key m then (None, m)
               else
                 (case emit_alert (volume_alert rd p cur avg) m of
                    (Some e, m') \<Rightarrow> (Some e, m')
                  | (None, m') \<Rightarrow>
                      (None, m'\<lparr>alert_cooldown :=
                                  AList.update cooldown_key (now_mark rd) (alert_cooldown m')\<rparr>)))
            else (None, m))))"

definition check_price_movement ::
  "swap_event \<Rightarrow> 'w alert_manager \<Rightarrow> py_exception option \<times> 'w alert_manager" where
  "check_price_movement ev m = (None, m)"

text \<open>\<^verbatim>\<open>token_in.current_price or 1.0\<close>: \<^verbatim>\<open>None\<close> and \<^verbatim>\<open>0.0\<close> both give \<open>1\<close>.\<close>

definition swap_volume_usd :: "swap_event \<Rightarrow> real" where
  "swap_volume_usd ev =
     se_amount_in ev *
       (case current_price (se_token_in ev) of
          None \<Rightarrow> 1
        | Some p \<Rightarrow> if p = 0 then 1 else p)"

definition process_swap_event ::
  "readings \<Rightarrow> swap_event \<Rightarrow> 'w alert_manager \<Rightarrow> py_exception option \<times> 'w alert_manager" where
  "process_swap_event rd ev m =
     (let volume_usd = swap_volume_usd ev;
          m1 = m\<lparr>volume_history :=
                  history_append 50 (pair_key (se_pair ev))
                    \<lparr>vs_timestamp = se_timestamp ev, vs_volume = volume_usd\<rparr> (volume_history m)\<rparr>
      in
      case check_volume_spike rd (se_pair ev) volume_usd m1 of
        (Some e, m2) \<Rightarrow> (Some e, m2)
      | (None, m2) \<Rightarrow> if se_price ev > 0 then check_price_movement ev m2 else (None, m2))"

definition liquidity_alert :: "readings \<Rightarrow> liquidity_event \<Rightarrow> real \<Rightarrow> alert" where
  "liquidity_alert rd ev liquidity_usd =
     \<lparr> al_id = liquidity_uuid rd,
       al_timestamp = le_timestamp ev,
       al_event_type = LIQUIDITY_REMOVE,
       al_severity = HIGH,
       al_title = ''Large Liquidity Removal: '' @ pair_name (le_pair ev),
       al_message =
         [Text ''Large liquidity removal detected: $'', Float '',.2f'' liquidity_usd,
          Text '' from '', Text (pair_name (le_pair ev))],
       al_data =
         [(''pair_name'', DStr (pair_name (le_pair ev))),
          (''pool_address'', DStr (pool_address (le_pair ev))),
          (''liquidity_removed'', DNum liquidity_usd),
          (''provider'', DStr (le_provider ev))],
       al_resolved = False,
       al_resolved_at = None,
       al_extra = Base \<rparr>"

definition process_liquidity_event ::
  "readings \<Rightarrow> liquidity_event \<Rightarrow> 'w alert_manager \<Rightarrow> py_exception option \<times> 'w alert_manager" where
  "process_liquidity_event rd ev m =
     (if le_event_type ev = LIQUIDITY_REMOVE then
        (let liquidity_usd = \<bar>le_liquidity_delta ev\<bar> in
         if liquidity_usd > 1000000 then emit_alert (liquidity_alert rd ev liquidity_usd) m
         else (None, m))
      else (None, m))"

definition opt_value :: "real option \<Rightarrow> data_value" where
  "opt_value v = (case v of None \<Rightarrow> DNone | Some x \<Rightarrow> DNum x)"

definition price_change_alert :: "readings \<Rightarrow> price_data \<Rightarrow> real \<Rightarrow> alert" where
  "price_change_alert rd pd change =
     \<lparr> al_id = change_uuid rd,
       al_timestamp = pd_timestamp pd,
       al_event_type = PRICE_CHANGE,
       al_severity = (if \<bar>change\<bar> > 20 then HIGH else MEDIUM),
       al_title = ''Significant Price Change: '' @ symbol (pd_token pd),
       al_message =
         [Text (symbol (pd_token pd)), Text '' price changed by '', Float ''.2f'' change,
          Text ''% in 24h''],
       al_data =
         [(''token_symbol'', DStr (symbol (pd_token pd))),
          (''price_change_24h'', DNum change),
          (''current_price'', DNum (pd_price_usd pd)),
          (''volume_24h'', opt_value (pd_volume_24h pd))],
       al_resolved = False,
       al_resolved_at = None,
       al_extra = Base \<rparr>"

text \<open>
  The second rule of \<^verbatim>\<open>_process_price_data\<close>. \<^verbatim>\<open>price_change_24h and ...\<close> is false for
  \<^verbatim>\<open>None\<close> and for \<^verbatim>\<open>0.0\<close>.
\<close>

definition check_price_change ::
  "readings \<Rightarrow> price_data \<Rightarrow> 'w alert_manager \<Rightarrow> py_exception option \<times> 'w alert_manager" where
  "check_price_change rd pd m =
     (case pd_price_change_24h pd of
        None \<Rightarrow> (None, m)
      | Some change \<Rightarrow>
          if change \<noteq> 0 \<and> \<bar>change\<bar> > price_change_threshold m * 100
          then emit_alert (price_change_alert rd pd change) m
          else (None, m))"

definition process_price_data ::
  "readings \<Rightarrow> price_data \<Rightarrow> 'w alert_manager \<Rightarrow> py_exception option \<times> 'w alert_manager" where
  "process_price_data rd pd m =
     (let token_symbol = symbol (pd_token pd);
          m1 = m\<lparr>price_history :=
                  history_append 100 token_symbol
                    \<lparr>ps_timestamp = pd_timestamp pd, ps_price = pd_price_usd pd\<rparr> (price_history m)\<rparr>
      in
      case (if token_symbol \<in> set stablecoins then check_stablecoin_depeg rd pd m1 else (None, m1)) of
        (Some e, m2) \<Rightarrow> (Some e, m2)
      | (None, m2) \<Rightarrow> check_price_change rd pd m2)"

subsubsection \<open>Entry points\<close>

text \<open>The \<^verbatim>\<open>isinstance\<close> chain inside the \<^verbatim>\<open>try\<close> of \<^verbatim>\<open>process_event\<close>.\<close>

definition dispatch ::
  "readings \<Rightarrow> event \<Rightarrow> 'w alert_manager \<Rightarrow> py_exception option \<times> 'w alert_manager" where
  "dispatch rd event m =
     (case event of
        Swap ev \<Rightarrow> process_swap_event rd ev m
      | Liquidity ev \<Rightarrow> process_liquidity_event rd ev m
      | Price pd \<Rightarrow> process_price_data rd pd m
      | Unrecognized \<Rightarrow> (None, m))"

text \<open>
  \<^verbatim>\<open>process_event\<close>: the dispatch inside \<^verbatim>\<open>try/except Exception\<close>. The handler logs
  an instance of \<^verbatim>\<open>Exception\<close> and the method returns normally; any other exception
  reaches the caller.
\<close>

definition process_event ::
  "readings \<Rightarrow> event \<Rightarrow> 'w alert_manager \<Rightarrow> py_exception option \<times> 'w alert_manager" where
  "process_event rd event m =
     (case dispatch rd event m of
        (Some e, m') \<Rightarrow>
          if isinstance_Exception e then
            (None, m'\<lparr>logged := logged m' @
                       [(ERROR, ''Error processing event for alerts: '' @ str_of_exception e)]\<rparr>)
          else (Some e, m')
      | (None, m') \<Rightarrow> (None, m'))"

text \<open>
  \<^verbatim>\<open>resolve_alert\<close>: \<^verbatim>\<open>alert.resolve()\<close> mutates the object the dictionary holds, so
  the entry is resolved before the sink is called; \<open>now\<close> is the time \<^verbatim>\<open>resolve()\<close>
  reads.
\<close>

definition resolve_alert ::
  "time \<Rightarrow> string \<Rightarrow> 'w alert_manager \<Rightarrow> py_exception option \<times> 'w alert_manager" where
  "resolve_alert now alert_id m =
     (case map_of (active_alerts m) alert_id of
        None \<Rightarrow> (None, m)
      | Some a0 \<Rightarrow>
          (let a = resolve now a0;
               m1 = m\<lparr>active_alerts := AList.update alert_id a (active_alerts m)\<rparr>
           in
           case db_insert_alert m1 a (world m1) of
             (Some e, w) \<Rightarrow> (Some e, m1\<lparr>world := w\<rparr>)
           | (None, w) \<Rightarrow>
               (None, m1\<lparr>world := w,
                         active_alerts := AList.delete alert_id (active_alerts m1),
                         logged := logged m1 @ [(INFO, ''Alert resolved: '' @ al_title a)]\<rparr>)))"

definition get_active_alerts :: "'w alert_manager \<Rightarrow> alert list" where
  "get_active_alerts m = map snd (active_alerts m)"

text \<open>A run of the manager: the events are processed one after the other.\<close>

fun process_events :: "(readings \<times> event) list \<Rightarrow> 'w alert_manager \<Rightarrow> 'w alert_manager" where
  "process_events [] m = m"
| "process_events ((rd, ev) # rest) m = process_events rest (snd (process_event rd ev m))"

subsection \<open>Observations used in the statements\<close>

text \<open>
  The exceptions the callbacks raise when they are called in turn on an alert, each on the
  world the previous one left.
\<close>

fun callback_failures :: "(alert \<Rightarrow> 'w effect) list \<Rightarrow> alert \<Rightarrow> 'w \<Rightarrow> py_exception list" where
  "callback_failures [] a w = []"
| "callback_failures (callback # rest) a w =
     (case callback a w of
        (None, w') \<Rightarrow> callback_failures rest a w'
      | (Some e, w') \<Rightarrow> e # callback_failures rest a w')"


text \<open>
  An emission returns when the write to the sink returns and no callback raises an
  exception outside \<^verbatim>\<open>Exception\<close>.
\<close>

definition emission_returns :: "alert \<Rightarrow> 'w alert_manager \<Rightarrow> bool" where
  "emission_returns a m =
     (case db_insert_alert m a (world m) of
        (Some e, w) \<Rightarrow> False
      | (None, w) \<Rightarrow> list_all isinstance_Exception (callback_failures (alert_callbacks m) a w))"


text \<open>
  The samples a run pushes for one key, in the order of the events: the price samples of
  the updates of a token symbol, and the volume samples of the swaps of a pair key.
\<close>

fun price_samples :: "string \<Rightarrow> (readings \<times> event) list \<Rightarrow> price_sample list" where
  "price_samples k [] = []"
| "price_samples k ((rd, Price pd) # rest) =
     (if symbol (pd_token pd) = k
      then \<lparr>ps_timestamp = pd_timestamp pd, ps_price = pd_price_usd pd\<rparr> # price_samples k rest
      else price_samples k rest)"
| "price_samples k (_ # rest) = price_samples k rest"

fun volume_samples :: "string \<Rightarrow> (readings \<times> event) list \<Rightarrow> volume_sample list" where
  "volume_samples k [] = []"
| "volume_samples k ((rd, Swap ev) # rest) =
     (if pair_key (se_pair ev) = k
      then \<lparr>vs_timestamp = se_timestamp ev, vs_volume = swap_volume_usd ev\<rparr> # volume_samples k rest
      else volume_samples k rest)"
| "volume_samples k (_ # rest) = volume_samples k rest"

text \<open>
  The volume window of the pair of a swap once the sample of the swap has been pushed.
\<close>

definition pushed_window :: "swap_event \<Rightarrow> 'w alert_manager \<Rightarrow> volume_sample list" where
  "pushed_window sw m =
     deque_append 50 (history_get (volume_history m) (pair_key (se_pair sw)))
       \<lparr>vs_timestamp = se_timestamp sw, vs_volume = swap_volume_usd sw\<rparr>"

text \<open>
  Following the spec's words: the average volume over the 9 samples immediately preceding
  the current one, the current one being the last of the window; and the condition under
  which the volume-spike rule triggers: at least 10 samples in the window, a positive
  average, a current volume above the average times the spike threshold, and no cooldown
  on the pool.
\<close>

definition preceding_average :: "volume_sample list \<Rightarrow> real" where
  "preceding_average win =
     sum_list (map (\<lambda>i. vs_volume (win ! (length win - 1 - i))) [1..<10]) / 9"

definition spike_condition :: "readings \<Rightarrow> swap_event \<Rightarrow> 'w alert_manager \<Rightarrow> bool" where
  "spike_condition rd sw m =
     (let win = pushed_window sw m; avg = preceding_average win in
      length win \<ge> 10 \<and> avg > 0 \<and> swap_volume_usd sw > avg * volume_spike_threshold m
      \<and> \<not> is_on_cooldown (now_check rd) (''volume_spike_'' @ pool_address (se_pair sw)) m)"

text \<open>The average as the code computes it, over the slice \<^verbatim>\<open>volume_data[-10:-1]\<close>.\<close>

definition code_average :: "volume_sample list \<Rightarrow> real" where
  "code_average win =
     sum_list (map vs_volume (butlast (drop (length win - 10) win))) /
       real (length (map vs_volume (butlast (drop (length win - 10) win))))"

text \<open>
  A baseline event is a swap of the given pair with the given volume. A manager is steady
  with respect to an earlier one when alerts, cooldowns and configuration are the same and
  the volume window of the pair holds samples of the baseline volume only.
\<close>

definition baseline_swap :: "trading_pair \<Rightarrow> real \<Rightarrow> event \<Rightarrow> bool" where
  "baseline_swap p v ev =
     (case ev of Swap sw \<Rightarrow> se_pair sw = p \<and> swap_volume_usd sw = v | _ \<Rightarrow> False)"

definition steady :: "trading_pair \<Rightarrow> real \<Rightarrow> 'w alert_manager \<Rightarrow> 'w alert_manager \<Rightarrow> bool" where
  "steady p v m m' =
     (active_alerts m' = active_alerts m \<and> alert_cooldown m' = alert_cooldown m
      \<and> cooldown_duration m' = cooldown_duration m
      \<and> volume_spike_threshold m' = volume_spike_threshold m
      \<and> (\<forall>s \<in> set (history_get (volume_history m') (pair_key p)). vs_volume s = v))"

subsection \<open>Example inputs\<close>

text \<open>
  A small world for the examples: the sink and the callbacks write lines into a list of
  strings.
\<close>

definition recording_sink :: "alert \<Rightarrow> string list effect" where
  "recording_sink a w = (None, w @ [''db:'' @ al_id a])"





definition usdc :: token where
  "usdc = \<lparr> symbol = ''USDC'', address = ''0xa0b86a33e6441b2c30b7ade5c3e77eeddbfe1fd8'',
            decimals = 6, token_name = ''USD Coin'', current_price = Some 1 \<rparr>"

definition weth :: token where
  "weth = \<lparr> symbol = ''WETH'', address = ''0xc02aaa39b223fe8d0a0e5c4f27ead9083c756cc2'',
            decimals = 18, token_name = ''Wrapped Ether'', current_price = None \<rparr>"

definition usdc_weth :: trading_pair where
  "usdc_weth = \<lparr> token0 = usdc, token1 = weth,
                 pool_address = ''0x88e6a0c2ddd26feeb64f039a2c41296fcb3f5640'', fee_tier = 5 / 10000 \<rparr>"

definition sample_readings :: readings where
  "sample_readings =
     \<lparr> now_check = 1000, now_stamp = 1001, now_mark = 1002,
       depeg_uuid = ''id-depeg'', volume_uuid = ''id-volume'',
       liquidity_uuid = ''id-liquidity'', change_uuid = ''id-change'' \<rparr>"

definition removal :: "real \<Rightarrow> liquidity_event" where
  "removal delta =
     \<lparr> le_timestamp = 900, le_pair = usdc_weth, le_event_type = LIQUIDITY_REMOVE,
       le_liquidity_delta = delta, le_provider = ''0xprovider'' \<rparr>"

definition fresh_manager :: "string list alert_manager" where
  "fresh_manager = new_alert_manager Map.empty recording_sink []"


definition sample_alert :: alert where
  "sample_alert = liquidity_alert sample_readings (removal 2000000) 2000000"

definition one_active :: "string list alert_manager" where
  "one_active = snd (emit_alert sample_alert fresh_manager)"

definition usdt :: token where
  "usdt = \<lparr> symbol = ''USDT'', address = ''0xdac17f958d2ee523a2206206994597c13d831ec7'',
            decimals = 6, token_name = ''Tether USD'', current_price = Some 1 \<rparr>"

definition price_update :: "token \<Rightarrow> real \<Rightarrow> price_data" where
  "price_update t p =
     \<lparr> pd_timestamp = 950, pd_token = t, pd_price_usd = p,
       pd_price_change_24h = None, pd_volume_24h = None \<rparr>"

definition readings_at :: "time \<Rightarrow> string \<Rightarrow> readings" where
  "readings_at t tag =
     \<lparr> now_check = t, now_stamp = t + 1, now_mark = t + 2,
       depeg_uuid = ''depeg-'' @ tag, volume_uuid = ''volume-'' @ tag,
       liquidity_uuid = ''liquidity-'' @ tag, change_uuid = ''change-'' @ tag \<rparr>"

definition swap_of :: "real \<Rightarrow> swap_event" where
  "swap_of amount =
     \<lparr> se_timestamp = 940, se_pair = usdc_weth, se_token_in = usdc, se_token_out = weth,
       se_amount_in = amount, se_amount_out = amount / 2500, se_price = 2500,
       se_transaction_hash = ''0x123456789abcdef'', se_block_number = 18500000 \<rparr>"

section \<open>Properties\<close>

subsection \<open>What emission leaves alone\<close>

lemma notify_callbacks_keeps:
  "active_alerts (snd (notify_callbacks cbs a m)) = active_alerts m"
  "alert_callbacks (snd (notify_callbacks cbs a m)) = alert_callbacks m"
  "price_history (snd (notify_callbacks cbs a m)) = price_history m"
  "volume_history (snd (notify_callbacks cbs a m)) = volume_history m"
  "depeg_threshold (snd (notify_callbacks cbs a m)) = depeg_threshold m"
  "price_change_threshold (snd (notify_callbacks cbs a m)) = price_change_threshold m"
  "volume_spike_threshold (snd (notify_callbacks cbs a m)) = volume_spike_threshold m"
  "alert_cooldown (snd (notify_callbacks cbs a m)) = alert_cooldown m"
  "cooldown_duration (snd (notify_callbacks cbs a m)) = cooldown_duration m"
  "db_insert_alert (snd (notify_callbacks cbs a m)) = db_insert_alert m"
  by (induction cbs arbitrary: m; simp split: prod.splits option.splits)+

lemma emit_alert_keeps:
  "active_alerts (snd (emit_alert a m)) = AList.update (al_id a) a (active_alerts m)"
  "alert_callbacks (snd (emit_alert a m)) = alert_callbacks m"
  "price_history (snd (emit_alert a m)) = price_history m"
  "volume_history (snd (emit_alert a m)) = volume_history m"
  "depeg_threshold (snd (emit_alert a m)) = depeg_threshold m"
  "price_change_threshold (snd (emit_alert a m)) = price_change_threshold m"
  "volume_spike_threshold (snd (emit_alert a m)) = volume_spike_threshold m"
  "alert_cooldown (snd (emit_alert a m)) = alert_cooldown m"
  "cooldown_duration (snd (emit_alert a m)) = cooldown_duration m"
  "db_insert_alert (snd (emit_alert a m)) = db_insert_alert m"
proof -
  have n: "notify_callbacks cbs a m0 = (r, m2) \<Longrightarrow> m2 = snd (notify_callbacks cbs a m0)"
    for cbs r m2 and m0 :: "'a alert_manager"
    by simp
  show
    "active_alerts (snd (emit_alert a m)) = AList.update (al_id a) a (active_alerts m)"
    "alert_callbacks (snd (emit_alert a m)) = alert_callbacks m"
    "price_history (snd (emit_alert a m)) = price_history m"
    "volume_history (snd (emit_alert a m)) = volume_history m"
    "depeg_threshold (snd (emit_alert a m)) = depeg_threshold m"
    "price_change_threshold (snd (emit_alert a m)) = price_change_threshold m"
    "volume_spike_threshold (snd (emit_alert a m)) = volume_spike_threshold m"
    "alert_cooldown (snd (emit_alert a m)) = alert_cooldown m"
    "cooldown_duration (snd (emit_alert a m)) = cooldown_duration m"
    "db_insert_alert (snd (emit_alert a m)) = db_insert_alert m"
    by (auto simp add: emit_alert_def Let_def notify_callbacks_keeps
        split: prod.splits option.splits dest!: n)
qed

lemma emit_alert_keepsD:
  assumes "emit_alert a m = (r, m')"
  shows "active_alerts m' = AList.update (al_id a) a (active_alerts m)"
    and "alert_callbacks m' = alert_callbacks m"
    and "price_history m' = price_history m"
    and "volume_history m' = volume_history m"
    and "depeg_threshold m' = depeg_threshold m"
    and "price_change_threshold m' = price_change_threshold m"
    and "volume_spike_threshold m' = volume_spike_threshold m"
    and "alert_cooldown m' = alert_cooldown m"
    and "cooldown_duration m' = cooldown_duration m"
    and "db_insert_alert m' = db_insert_alert m"
  using emit_alert_keeps [of a m] assms by simp_all

lemma notify_callbacks_returns:
  "fst (notify_callbacks cbs a m) = None \<longleftrightarrow>
     list_all isinstance_Exception (callback_failures cbs a (world m))"
  by (induction cbs arbitrary: m) (simp_all split: prod.splits option.splits)

lemma emit_alert_returns:
  "fst (emit_alert a m) = None \<longleftrightarrow> emission_returns a m"
proof -
  obtain r w where s: "db_insert_alert m a (world m) = (r, w)"
    by (cases "db_insert_alert m a (world m)")
  let ?n = "notify_callbacks (alert_callbacks m) a
      (m\<lparr>active_alerts := AList.update (al_id a) a (active_alerts m), world := w\<rparr>)"
  have "fst ?n = None \<longleftrightarrow> list_all isinstance_Exception (callback_failures (alert_callbacks m) a w)"
    by (simp add: notify_callbacks_returns)
  then show ?thesis
    using s by (cases r; cases ?n) (auto simp add: emit_alert_def emission_returns_def Let_def split: option.splits)
qed

subsection \<open>Bounded deques and the history dictionaries\<close>

lemma deque_append_length: "length d \<le> n \<Longrightarrow> length (deque_append n d x) \<le> n"
  by (auto simp add: deque_append_def Let_def)

lemma deque_pushes:
  "length d \<le> n \<Longrightarrow> foldl (deque_append n) d xs = drop (length (d @ xs) - n) (d @ xs)"
proof (induction xs arbitrary: d)
  case Nil
  then show ?case by simp
next
  case (Cons x xs)
  show ?case
  proof (cases "length d < n")
    case True
    then have "deque_append n d x = d @ [x]"
      by (simp add: deque_append_def Let_def)
    moreover have "length (d @ [x]) \<le> n" using True by simp
    ultimately show ?thesis using Cons.IH [of "d @ [x]"] by simp
  next
    case False
    then have full: "length d = n" using Cons.prems by simp
    then have step: "deque_append n d x = tl (d @ [x])"
      by (simp add: deque_append_def Let_def)
    have len: "length (tl (d @ [x])) \<le> n" using full by simp
    have e1: "tl (d @ [x]) @ xs = drop 1 (d @ x # xs)"
      by (cases d) simp_all
    have e2: "length (drop 1 (d @ x # xs)) - n = length xs" using full by simp
    have e3: "length (d @ x # xs) - n = length xs + 1" using full by simp
    have "foldl (deque_append n) d (x # xs) = foldl (deque_append n) (tl (d @ [x])) xs"
      by (simp add: step)
    also have "\<dots> = drop (length (tl (d @ [x]) @ xs) - n) (tl (d @ [x]) @ xs)"
      by (rule Cons.IH [OF len])
    also have "\<dots> = drop (length xs) (drop 1 (d @ x # xs))"
      unfolding e1 e2 ..
    also have "\<dots> = drop (length xs + 1) (d @ x # xs)"
      by (simp only: drop_drop)
    also have "\<dots> = drop (length (d @ x # xs) - n) (d @ x # xs)"
      unfolding e3 ..
    finally show ?thesis .
  qed
qed

lemma deque_pushes_empty: "foldl (deque_append n) [] xs = drop (length xs - n) xs"
  using deque_pushes [of "[]" n xs] by simp

lemma length_last_part: "length (drop (length ys - n) ys) \<le> n"
  by simp

lemma history_get_touch: "history_get (history_touch k h) k' = history_get h k'"
proof (cases "map_of h k")
  case None
  then show ?thesis
    by (cases "k' = k") (simp_all add: history_get_def history_touch_def map_add_def split: option.splits)
next
  case (Some d)
  then show ?thesis by (simp add: history_touch_def)
qed

lemma history_touch_present: "map_of h k = Some d \<Longrightarrow> history_touch k h = h"
  by (simp add: history_touch_def)

lemma history_get_append:
  "history_get (history_append n k x h) k' =
     (if k' = k then deque_append n (history_get h k) x else history_get h k')"
proof -
  have "history_get (history_append n k x h) k' =
      (if k' = k then deque_append n (history_get (history_touch k h) k) x
       else history_get (history_touch k h) k')"
    by (simp add: history_append_def Let_def history_get_def AList.update_conv')
  then show ?thesis by (simp add: history_get_touch)
qed

lemma history_touch_append: "history_touch k (history_append n k x h) = history_append n k x h"
  by (rule history_touch_present [where d = "deque_append n (history_get (history_touch k h) k) x"])
     (simp add: history_append_def Let_def AList.update_conv')

lemma check_price_change_keepsD:
  assumes "check_price_change rd pd m = (r, m')"
  shows "price_history m' = price_history m"
    and "volume_history m' = volume_history m"
    and "alert_cooldown m' = alert_cooldown m"
  using assms
  by (auto simp add: check_price_change_def split: option.splits if_splits dest: emit_alert_keepsD)

lemma check_stablecoin_depeg_keepsD:
  assumes "check_stablecoin_depeg rd pd m = (r, m')"
  shows "price_history m' = price_history m"
    and "volume_history m' = volume_history m"
  using assms
  by (auto simp add: check_stablecoin_depeg_def Let_def
      split: option.splits prod.splits if_splits dest: emit_alert_keepsD)

lemma check_volume_spike_keepsD:
  assumes "check_volume_spike rd p cur m = (r, m')"
  shows "price_history m' = price_history m"
    and "volume_history m' = history_touch (pair_key p) (volume_history m)"
  using assms
  by (auto simp add: check_volume_spike_def Let_def
      split: option.splits prod.splits if_splits dest: emit_alert_keepsD)

lemma dispatch_histories:
  assumes "dispatch rd ev m = (r, m')"
  shows "price_history m' =
     (case ev of
        Price pd \<Rightarrow>
          history_append 100 (symbol (pd_token pd))
            \<lparr>ps_timestamp = pd_timestamp pd, ps_price = pd_price_usd pd\<rparr> (price_history m)
      | _ \<Rightarrow> price_history m)
    \<and> volume_history m' =
     (case ev of
        Swap sw \<Rightarrow>
          history_append 50 (pair_key (se_pair sw))
            \<lparr>vs_timestamp = se_timestamp sw, vs_volume = swap_volume_usd sw\<rparr> (volume_history m)
      | _ \<Rightarrow> volume_history m)"
proof (cases ev)
  case (Swap sw)
  then show ?thesis
    using assms by (auto simp add: dispatch_def process_swap_event_def Let_def check_price_movement_def
        history_touch_append
        split: prod.splits option.splits if_splits dest: check_volume_spike_keepsD)
next
  case (Liquidity le)
  then show ?thesis 
    using assms by (auto simp add: dispatch_def process_liquidity_event_def Let_def 
        split: prod.splits option.splits if_splits dest: emit_alert_keepsD)
next
  case (Price pd)
  let ?m1 = "m\<lparr>price_history :=
      history_append 100 (symbol (pd_token pd))
        \<lparr>ps_timestamp = pd_timestamp pd, ps_price = pd_price_usd pd\<rparr> (price_history m)\<rparr>"
  obtain r2 m2 where
    d: "(if symbol (pd_token pd) \<in> set stablecoins then check_stablecoin_depeg rd pd ?m1
         else (None, ?m1)) = (r2, m2)"
    by (cases "if symbol (pd_token pd) \<in> set stablecoins then check_stablecoin_depeg rd pd ?m1
         else (None, ?m1)") blast
  have m2: "price_history m2 = price_history ?m1 \<and> volume_history m2 = volume_history ?m1"
    using d by (auto split: if_splits dest: check_stablecoin_depeg_keepsD)
  have "price_history m' = price_history m2 \<and> volume_history m' = volume_history m2"
    using assms d
    by (cases r2) (auto simp add: Price dispatch_def process_price_data_def Let_def
        dest: check_price_change_keepsD)
  then show ?thesis using m2 by (simp add: Price)
next
  case Unrecognized
  then show ?thesis using assms by (simp add: dispatch_def)
qed

lemma process_event_histories:
  "price_history (snd (process_event rd ev m)) =
     (case ev of
        Price pd \<Rightarrow>
          history_append 100 (symbol (pd_token pd))
            \<lparr>ps_timestamp = pd_timestamp pd, ps_price = pd_price_usd pd\<rparr> (price_history m)
      | _ \<Rightarrow> price_history m)"
  "volume_history (snd (process_event rd ev m)) =
     (case ev of
        Swap sw \<Rightarrow>
          history_append 50 (pair_key (se_pair sw))
            \<lparr>vs_timestamp = se_timestamp sw, vs_volume = swap_volume_usd sw\<rparr> (volume_history m)
      | _ \<Rightarrow> volume_history m)"
  using dispatch_histories [of rd ev m]
  by (auto simp add: process_event_def split: prod.splits option.splits)

subsection \<open>The depeg rule, case by case\<close>

lemma is_on_cooldown_cong:
  "alert_cooldown m' = alert_cooldown m \<Longrightarrow> cooldown_duration m' = cooldown_duration m \<Longrightarrow>
   is_on_cooldown now k m' = is_on_cooldown now k m"
  by (simp add: is_on_cooldown_def split: option.splits)

lemma depeg_not_usdc:
  "symbol (pd_token pd) \<noteq> ''USDC'' \<Longrightarrow> check_stablecoin_depeg rd pd m = (None, m)"
  by (simp add: check_stablecoin_depeg_def Let_def)

lemma depeg_within_threshold:
  "\<not> \<bar>pd_price_usd pd - 1\<bar> > depeg_threshold m \<Longrightarrow> check_stablecoin_depeg rd pd m = (None, m)"
  by (simp add: check_stablecoin_depeg_def Let_def)

lemma depeg_on_cooldown:
  "is_on_cooldown (now_check rd) (''depeg_'' @ symbol (pd_token pd)) m \<Longrightarrow>
   check_stablecoin_depeg rd pd m = (None, m)"
  by (simp add: check_stablecoin_depeg_def Let_def)

lemma depeg_fires:
  assumes "symbol (pd_token pd) = ''USDC''"
    and "\<bar>pd_price_usd pd - 1\<bar> > depeg_threshold m"
    and "\<not> is_on_cooldown (now_check rd) ''depeg_USDC'' m"
  shows "check_stablecoin_depeg rd pd m =
     (case emit_alert (depeg_alert rd pd \<bar>pd_price_usd pd - 1\<bar> (mock_pair (pd_token pd))) m of
        (Some e, m') \<Rightarrow> (Some e, m')
      | (None, m') \<Rightarrow>
          (None, m'\<lparr>alert_cooldown := AList.update ''depeg_USDC'' (now_mark rd) (alert_cooldown m')\<rparr>))"
  using assms by (simp add: check_stablecoin_depeg_def Let_def)

lemma depeg_fires_active:
  assumes "symbol (pd_token pd) = ''USDC''"
    and "\<bar>pd_price_usd pd - 1\<bar> > depeg_threshold m"
    and "\<not> is_on_cooldown (now_check rd) ''depeg_USDC'' m"
  shows "active_alerts (snd (check_stablecoin_depeg rd pd m)) =
     AList.update (depeg_uuid rd) (depeg_alert rd pd \<bar>pd_price_usd pd - 1\<bar> (mock_pair (pd_token pd)))
       (active_alerts m)"
proof -
  have "al_id (depeg_alert rd pd x rp) = depeg_uuid rd" for x rp
    by (simp add: depeg_alert_def)
  then show ?thesis
    by (auto simp add: depeg_fires [OF assms] split: prod.splits option.splits
        dest: emit_alert_keepsD(1))
qed

lemma depeg_fires_cooldown:
  assumes "symbol (pd_token pd) = ''USDC''"
    and "\<bar>pd_price_usd pd - 1\<bar> > depeg_threshold m"
    and "\<not> is_on_cooldown (now_check rd) ''depeg_USDC'' m"
  shows "alert_cooldown (snd (check_stablecoin_depeg rd pd m)) =
     (if fst (emit_alert (depeg_alert rd pd \<bar>pd_price_usd pd - 1\<bar> (mock_pair (pd_token pd))) m) = None
      then AList.update ''depeg_USDC'' (now_mark rd) (alert_cooldown m)
      else alert_cooldown m)"
proof (cases "emit_alert (depeg_alert rd pd \<bar>pd_price_usd pd - 1\<bar> (mock_pair (pd_token pd))) m")
  case (Pair r m')
  then have "alert_cooldown m' = alert_cooldown m" by (rule emit_alert_keepsD(8))
  then show ?thesis
    using Pair by (cases r) (simp_all add: depeg_fires [OF assms])
qed

text \<open>Whether an emission returns does not depend on the histories.\<close>

lemma notify_callbacks_outcome:
  "world m = world m' \<Longrightarrow> fst (notify_callbacks cbs a m) = fst (notify_callbacks cbs a m')"
proof (induction cbs arbitrary: m m')
  case Nil
  then show ?case by simp
next
  case (Cons callback cbs)
  obtain r w where c: "callback a (world m') = (r, w)" by (cases "callback a (world m')")
  have same: "fst (notify_callbacks cbs a m1) = fst (notify_callbacks cbs a m2)"
    if "world m1 = w" "world m2 = w" for m1 m2 :: "'a alert_manager"
    using that by (intro Cons.IH) simp
  show ?case
  proof (cases r)
    case None
    then show ?thesis using c Cons.prems by (simp add: same)
  next
    case (Some e)
    then show ?thesis using c Cons.prems by (cases "isinstance_Exception e") (simp_all add: same)
  qed
qed

lemma emit_alert_price_history:
  "fst (emit_alert a (m\<lparr>price_history := h\<rparr>)) = fst (emit_alert a m)"
proof -
  obtain r w where s: "db_insert_alert m a (world m) = (r, w)"
    by (cases "db_insert_alert m a (world m)")
  let ?n1 = "notify_callbacks (alert_callbacks m) a
      (m\<lparr>price_history := h, active_alerts := AList.update (al_id a) a (active_alerts m), world := w\<rparr>)"
  let ?n2 = "notify_callbacks (alert_callbacks m) a
      (m\<lparr>active_alerts := AList.update (al_id a) a (active_alerts m), world := w\<rparr>)"
  have "fst ?n1 = fst ?n2" by (rule notify_callbacks_outcome) simp
  then show ?thesis
    using s by (cases r; cases ?n1; cases ?n2) (auto simp add: emit_alert_def Let_def split: option.splits)
qed

lemma update_values: "set (map snd (AList.update k v al)) \<subseteq> insert v (set (map snd al))"
  by (induction al) auto

lemma check_price_change_active:
  assumes "a \<in> set (get_active_alerts (snd (check_price_change rd pd m)))"
  shows "a \<in> set (get_active_alerts m) \<or> al_event_type a = PRICE_CHANGE"
proof (cases "active_alerts (snd (check_price_change rd pd m)) = active_alerts m")
  case True
  then show ?thesis using assms by (simp add: get_active_alerts_def)
next
  case False
  then obtain c where
    "active_alerts (snd (check_price_change rd pd m)) =
       AList.update (change_uuid rd) (price_change_alert rd pd c) (active_alerts m)"
    by (auto simp add: check_price_change_def emit_alert_keeps price_change_alert_def
        split: option.splits if_splits)
  then have "a = price_change_alert rd pd c \<or> a \<in> set (get_active_alerts m)"
    using assms update_values [of "change_uuid rd" "price_change_alert rd pd c" "active_alerts m"]
    by (auto simp add: get_active_alerts_def)
  then show ?thesis by (auto simp add: price_change_alert_def)
qed

lemma price_event_without_depeg:
  assumes "check_stablecoin_depeg rd pd
      (m\<lparr>price_history := history_append 100 (symbol (pd_token pd))
          \<lparr>ps_timestamp = pd_timestamp pd, ps_price = pd_price_usd pd\<rparr> (price_history m)\<rparr>) =
     (None, m\<lparr>price_history := history_append 100 (symbol (pd_token pd))
          \<lparr>ps_timestamp = pd_timestamp pd, ps_price = pd_price_usd pd\<rparr> (price_history m)\<rparr>)"
  shows "dispatch rd (Price pd) m =
     check_price_change rd pd
       (m\<lparr>price_history := history_append 100 (symbol (pd_token pd))
          \<lparr>ps_timestamp = pd_timestamp pd, ps_price = pd_price_usd pd\<rparr> (price_history m)\<rparr>)"
  using assms by (simp add: dispatch_def process_price_data_def Let_def)

lemma process_event_snd:
  "active_alerts (snd (process_event rd ev m)) = active_alerts (snd (dispatch rd ev m))"
  "alert_cooldown (snd (process_event rd ev m)) = alert_cooldown (snd (dispatch rd ev m))"
  by (simp_all add: process_event_def split: prod.splits option.splits)

lemma is_on_cooldown_history:
  "is_on_cooldown now k (m\<lparr>price_history := ph\<rparr>) = is_on_cooldown now k m"
  "is_on_cooldown now k (m\<lparr>volume_history := vh\<rparr>) = is_on_cooldown now k m"
  by (simp_all add: is_on_cooldown_def split: option.splits)

lemma check_price_change_cooldown:
  "alert_cooldown (snd (check_price_change rd pd m)) = alert_cooldown m"
  by (rule check_price_change_keepsD(3) [OF prod.collapse [symmetric]])

lemma dispatch_price_cooldown:
  "alert_cooldown (snd (dispatch rd (Price pd) m)) =
     (if symbol (pd_token pd) \<in> set stablecoins
      then alert_cooldown (snd (check_stablecoin_depeg rd pd
        (m\<lparr>price_history := history_append 100 (symbol (pd_token pd))
          \<lparr>ps_timestamp = pd_timestamp pd, ps_price = pd_price_usd pd\<rparr> (price_history m)\<rparr>)))
      else alert_cooldown m)"
proof -
  let ?m1 = "m\<lparr>price_history := history_append 100 (symbol (pd_token pd))
          \<lparr>ps_timestamp = pd_timestamp pd, ps_price = pd_price_usd pd\<rparr> (price_history m)\<rparr>"
  show ?thesis
  proof (cases "symbol (pd_token pd) \<in> set stablecoins")
    case True
    obtain r m2 where c: "check_stablecoin_depeg rd pd ?m1 = (r, m2)"
      by (cases "check_stablecoin_depeg rd pd ?m1") blast
    show ?thesis
      using True c
      by (cases r) (simp_all add: dispatch_def process_price_data_def Let_def check_price_change_cooldown)
  next
    case False
    then show ?thesis
      by (simp add: dispatch_def process_price_data_def Let_def check_price_change_cooldown)
  qed
qed

lemma check_stablecoin_depeg_config:
  "depeg_threshold (snd (check_stablecoin_depeg rd pd m)) = depeg_threshold m"
  "cooldown_duration (snd (check_stablecoin_depeg rd pd m)) = cooldown_duration m"
  by (auto simp add: check_stablecoin_depeg_def Let_def
      split: option.splits prod.splits if_splits dest: emit_alert_keepsD)

lemma is_on_cooldown_after_mark:
  assumes "alert_cooldown m' = AList.update k t (alert_cooldown m)"
    and "cooldown_duration m' = cooldown_duration m"
  shows "is_on_cooldown now k m' = (now - t < cooldown_duration m)"
  using assms by (simp add: is_on_cooldown_def AList.update_conv')

subsection \<open>When the depeg rule marks the cooldown\<close>

text \<open>
  Claim C1 says that a price update of a recognized stablecoin whose deviation exceeds the
  threshold and whose key is not on cooldown always records the firing time, also when no
  companion pair is resolved. The code writes the cooldown inside the branch that has a
  pair: for USDT at half a dollar on a new manager no entry is recorded.
\<close>

theorem depeg_cooldown_marking_counterexample:
  "symbol (pd_token (price_update usdt (1 / 2))) \<in> set stablecoins
   \<and> \<bar>pd_price_usd (price_update usdt (1 / 2)) - 1\<bar> > depeg_threshold fresh_manager
   \<and> \<not> is_on_cooldown (now_check sample_readings) ''depeg_USDT'' fresh_manager
   \<and> map_of (alert_cooldown (snd (process_event sample_readings
         (Price (price_update usdt (1 / 2))) fresh_manager))) ''depeg_USDT'' = None"
  by (simp add: price_update_def usdt_def stablecoins_def fresh_manager_def new_alert_manager_def
      process_event_def dispatch_def process_price_data_def Let_def check_price_change_def
      check_stablecoin_depeg_def is_on_cooldown_def config_get_def)

text \<open>
  Claim C1, amended. For every price update of a recognized stablecoin whose deviation
  from 1 exceeds the depeg threshold and whose cooldown key is not on cooldown, processing
  the event records the time read at the marking under that key when a companion pair is
  resolved, which is when the symbol is \<open>USDC\<close>, and the emission of the alert returns;
  otherwise the cooldown dictionary is left as it was. The emission returns exactly when
  the write to the sink returns and no callback raises an exception outside
  \<^verbatim>\<open>Exception\<close>.
\<close>

theorem depeg_cooldown_marking:
  assumes "symbol (pd_token pd) \<in> set stablecoins"
    and "\<bar>pd_price_usd pd - 1\<bar> > depeg_threshold m"
    and "\<not> is_on_cooldown (now_check rd) (''depeg_'' @ symbol (pd_token pd)) m"
  shows "alert_cooldown (snd (process_event rd (Price pd) m)) =
     (if symbol (pd_token pd) = ''USDC''
         \<and> fst (emit_alert (depeg_alert rd pd \<bar>pd_price_usd pd - 1\<bar> (mock_pair (pd_token pd))) m) = None
      then AList.update (''depeg_'' @ symbol (pd_token pd)) (now_mark rd) (alert_cooldown m)
      else alert_cooldown m)
    \<and> (fst (emit_alert (depeg_alert rd pd \<bar>pd_price_usd pd - 1\<bar> (mock_pair (pd_token pd))) m) = None
         \<longleftrightarrow> emission_returns (depeg_alert rd pd \<bar>pd_price_usd pd - 1\<bar> (mock_pair (pd_token pd))) m)"
proof (rule conjI)
  show "fst (emit_alert (depeg_alert rd pd \<bar>pd_price_usd pd - 1\<bar> (mock_pair (pd_token pd))) m) = None
      \<longleftrightarrow> emission_returns (depeg_alert rd pd \<bar>pd_price_usd pd - 1\<bar> (mock_pair (pd_token pd))) m"
    by (rule emit_alert_returns)
next
  let ?m1 = "m\<lparr>price_history := history_append 100 (symbol (pd_token pd))
          \<lparr>ps_timestamp = pd_timestamp pd, ps_price = pd_price_usd pd\<rparr> (price_history m)\<rparr>"
  have step: "alert_cooldown (snd (process_event rd (Price pd) m)) =
      alert_cooldown (snd (check_stablecoin_depeg rd pd ?m1))"
    using assms(1) by (simp add: process_event_snd dispatch_price_cooldown)
  show "alert_cooldown (snd (process_event rd (Price pd) m)) =
     (if symbol (pd_token pd) = ''USDC''
         \<and> fst (emit_alert (depeg_alert rd pd \<bar>pd_price_usd pd - 1\<bar> (mock_pair (pd_token pd))) m) = None
      then AList.update (''depeg_'' @ symbol (pd_token pd)) (now_mark rd) (alert_cooldown m)
      else alert_cooldown m)"
  proof (cases "symbol (pd_token pd) = ''USDC''")
    case True
    have thr: "\<bar>pd_price_usd pd - 1\<bar> > depeg_threshold ?m1" using assms(2) by simp
    have cool: "\<not> is_on_cooldown (now_check rd) ''depeg_USDC'' ?m1"
      using assms(3) True by (simp add: is_on_cooldown_history)
    show ?thesis
      using depeg_fires_cooldown [OF True thr cool] True
      by (simp add: step emit_alert_price_history)
  next
    case False
    then show ?thesis by (simp add: step depeg_not_usdc)
  qed
qed

text \<open>USDC at half a dollar on a new manager.\<close>

theorem depeg_cooldown_marking_witness:
  "symbol (pd_token (price_update usdc (1 / 2))) \<in> set stablecoins
   \<and> \<bar>pd_price_usd (price_update usdc (1 / 2)) - 1\<bar> > depeg_threshold fresh_manager
   \<and> \<not> is_on_cooldown (now_check sample_readings)
        (''depeg_'' @ symbol (pd_token (price_update usdc (1 / 2)))) fresh_manager
   \<and> emission_returns (depeg_alert sample_readings (price_update usdc (1 / 2))
        \<bar>pd_price_usd (price_update usdc (1 / 2)) - 1\<bar> (mock_pair usdc)) fresh_manager
   \<and> alert_cooldown (snd (process_event sample_readings
         (Price (price_update usdc (1 / 2))) fresh_manager)) = [(''depeg_USDC'', 1002)]"
  using depeg_cooldown_marking [of "price_update usdc (1 / 2)" fresh_manager sample_readings]
  by (simp add: price_update_def usdc_def stablecoins_def fresh_manager_def new_alert_manager_def
      is_on_cooldown_def config_get_def recording_sink_def sample_readings_def
      emission_returns_def)

subsection \<open>Volume spikes\<close>

lemma one_to_nine: "[1..<10] = [1, 2, 3, 4, 5, 6, 7, 8, 9 :: nat]"
  by code_simp

lemma ten_elements:
  assumes "length xs = 10"
  obtains a0 a1 a2 a3 a4 a5 a6 a7 a8 a9 where "xs = [a0, a1, a2, a3, a4, a5, a6, a7, a8, a9 :: 'a]"
  using assms by (auto simp add: eval_nat_numeral length_Suc_conv)

lemma code_average_is_preceding:
  assumes "length win \<ge> 10"
  shows "code_average win = preceding_average win"
proof -
  define k where "k = length win - 10"
  have len: "length win = k + 10" using assms by (simp add: k_def)
  have "length (drop k win) = 10" using len by simp
  then obtain a0 a1 a2 a3 a4 a5 a6 a7 a8 a9
    where d: "drop k win = [a0, a1, a2, a3, a4, a5, a6, a7, a8, a9]"
    by (rule ten_elements)
  have nth: "win ! (k + j) = drop k win ! j" for j
    using len by simp
  have idx: "win ! (length win - j) = drop k win ! (10 - j)" if "1 \<le> j" "j \<le> 10" for j
  proof -
    have "length win - j = k + (10 - j)" using len that by simp
    then show ?thesis by (simp only: nth)
  qed
  have "preceding_average win =
      (vs_volume a8 + vs_volume a7 + vs_volume a6 + vs_volume a5 + vs_volume a4 + vs_volume a3 +
       vs_volume a2 + vs_volume a1 + vs_volume a0) / 9"
    unfolding preceding_average_def one_to_nine by (simp add: idx d add.assoc)
  moreover have "code_average win =
      (vs_volume a0 + vs_volume a1 + vs_volume a2 + vs_volume a3 + vs_volume a4 + vs_volume a5 +
       vs_volume a6 + vs_volume a7 + vs_volume a8) / 9"
    unfolding code_average_def k_def [symmetric] d by (simp add: add.assoc)
  ultimately show ?thesis by simp
qed

lemma check_volume_spike_present:
  assumes "map_of (volume_history m) (pair_key p) = Some win"
  shows "check_volume_spike rd p cur m =
     (if length win < 10 then (None, m)
      else if code_average win > 0 \<and> cur > code_average win * volume_spike_threshold m
              \<and> \<not> is_on_cooldown (now_check rd) (''volume_spike_'' @ pool_address p) m
      then (case emit_alert (volume_alert rd p cur (code_average win)) m of
              (Some e, m') \<Rightarrow> (Some e, m')
            | (None, m') \<Rightarrow>
                (None, m'\<lparr>alert_cooldown :=
                   AList.update (''volume_spike_'' @ pool_address p) (now_mark rd) (alert_cooldown m')\<rparr>))
      else (None, m))"
proof -
  have t: "m\<lparr>volume_history := history_touch (pair_key p) (volume_history m)\<rparr> = m"
    using assms by (simp add: history_touch_def)
  have g: "history_get (volume_history m) (pair_key p) = win"
    using assms by (simp add: history_get_def)
  show ?thesis
  proof (cases "length win < 10")
    case True
    then show ?thesis by (simp add: check_volume_spike_def t g Let_def)
  next
    case False
    then have "length (map vs_volume (butlast (drop (length win - 10) win))) = 9"
      by simp
    then have ne: "map vs_volume (butlast (drop (length win - 10) win)) \<noteq> []"
      by (metis length_0_conv zero_neq_numeral)
    show ?thesis
      unfolding check_volume_spike_def Let_def t g
      unfolding code_average_def [symmetric]
      using False ne by simp
  qed
qed


lemma pushed_window_stored:
  "map_of (history_append 50 (pair_key (se_pair sw))
      \<lparr>vs_timestamp = se_timestamp sw, vs_volume = swap_volume_usd sw\<rparr> (volume_history m))
     (pair_key (se_pair sw)) = Some (pushed_window sw m)"
  by (simp add: history_append_def Let_def AList.update_conv' pushed_window_def history_get_touch)

lemma swap_dispatch:
  "dispatch rd (Swap sw) m =
     check_volume_spike rd (se_pair sw) (swap_volume_usd sw)
       (m\<lparr>volume_history := history_append 50 (pair_key (se_pair sw))
          \<lparr>vs_timestamp = se_timestamp sw, vs_volume = swap_volume_usd sw\<rparr> (volume_history m)\<rparr>)"
  by (simp add: dispatch_def process_swap_event_def Let_def check_price_movement_def
      split: prod.splits option.splits)

lemma swap_dispatch_cases:
  "dispatch rd (Swap sw) m =
     (let m1 = m\<lparr>volume_history := history_append 50 (pair_key (se_pair sw))
          \<lparr>vs_timestamp = se_timestamp sw, vs_volume = swap_volume_usd sw\<rparr> (volume_history m)\<rparr>;
          win = pushed_window sw m
      in
      if length win < 10 then (None, m1)
      else if code_average win > 0 \<and> swap_volume_usd sw > code_average win * volume_spike_threshold m
              \<and> \<not> is_on_cooldown (now_check rd) (''volume_spike_'' @ pool_address (se_pair sw)) m
      then (case emit_alert (volume_alert rd (se_pair sw) (swap_volume_usd sw) (code_average win)) m1 of
              (Some e, m') \<Rightarrow> (Some e, m')
            | (None, m') \<Rightarrow>
                (None, m'\<lparr>alert_cooldown :=
                   AList.update (''volume_spike_'' @ pool_address (se_pair sw)) (now_mark rd)
                     (alert_cooldown m')\<rparr>))
      else (None, m1))"
proof -
  let ?m1 = "m\<lparr>volume_history := history_append 50 (pair_key (se_pair sw))
          \<lparr>vs_timestamp = se_timestamp sw, vs_volume = swap_volume_usd sw\<rparr> (volume_history m)\<rparr>"
  have "map_of (volume_history ?m1) (pair_key (se_pair sw)) = Some (pushed_window sw m)"
    by (simp add: pushed_window_stored)
  from check_volume_spike_present [OF this] show ?thesis
    by (simp add: swap_dispatch Let_def is_on_cooldown_history)
qed

lemma swap_quiet:
  assumes "\<not> spike_condition rd sw m"
  shows "dispatch rd (Swap sw) m =
     (None, m\<lparr>volume_history := history_append 50 (pair_key (se_pair sw))
          \<lparr>vs_timestamp = se_timestamp sw, vs_volume = swap_volume_usd sw\<rparr> (volume_history m)\<rparr>)"
proof (cases "length (pushed_window sw m) < 10")
  case True
  then show ?thesis by (simp add: swap_dispatch_cases Let_def)
next
  case False
  then have "code_average (pushed_window sw m) = preceding_average (pushed_window sw m)"
    by (intro code_average_is_preceding) simp
  then show ?thesis
    using assms False by (auto simp add: swap_dispatch_cases spike_condition_def Let_def)
qed

lemma swap_fires:
  assumes "spike_condition rd sw m"
  shows "active_alerts (snd (dispatch rd (Swap sw) m)) =
     AList.update (volume_uuid rd)
       (volume_alert rd (se_pair sw) (swap_volume_usd sw) (preceding_average (pushed_window sw m)))
       (active_alerts m)"
proof -
  have len: "length (pushed_window sw m) \<ge> 10"
    using assms by (simp add: spike_condition_def Let_def)
  then have avg: "code_average (pushed_window sw m) = preceding_average (pushed_window sw m)"
    by (rule code_average_is_preceding)
  have id: "al_id (volume_alert rd p c a) = volume_uuid rd" for p c a
    by (simp add: volume_alert_def Let_def)
  show ?thesis
    using assms len
    by (auto simp add: swap_dispatch_cases spike_condition_def Let_def avg id
        split: prod.splits option.splits dest: emit_alert_keepsD(1))
qed


lemma constant_sum:
  "\<forall>s \<in> set ys. vs_volume s = v \<Longrightarrow> sum_list (map vs_volume ys) = real (length ys) * v"
  by (induction ys) (simp_all add: algebra_simps)

lemma deque_append_butlast: "set (butlast (deque_append n d x)) \<subseteq> set d"
proof (cases d)
  case Nil
  then show ?thesis by (simp add: deque_append_def Let_def)
next
  case (Cons a as)
  then show ?thesis by (auto simp add: deque_append_def Let_def)
qed

lemma deque_append_set: "set (deque_append n d x) \<subseteq> insert x (set d)"
  by (cases d) (auto simp add: deque_append_def Let_def)

lemma deque_append_grows: "min n (Suc (length d)) \<le> length (deque_append n d x)"
  by (auto simp add: deque_append_def Let_def)

lemma preceding_average_constant:
  assumes "length win \<ge> 10" and "\<forall>s \<in> set (butlast win). vs_volume s = v"
  shows "preceding_average win = v"
proof -
  let ?ys = "butlast (drop (length win - 10) win)"
  have "set ?ys \<subseteq> set (butlast win)"
    by (simp only: butlast_drop set_drop_subset)
  then have "\<forall>s \<in> set ?ys. vs_volume s = v" using assms(2) by blast
  then have "sum_list (map vs_volume ?ys) = real (length ?ys) * v" by (rule constant_sum)
  moreover have "length ?ys = 9" using assms(1) by simp
  ultimately have "sum_list (map vs_volume ?ys) / real (length (map vs_volume ?ys)) = 9 * v / 9"
    by (simp only: length_map of_nat_numeral)
  then have "code_average win = v" unfolding code_average_def by simp
  then show ?thesis by (simp only: code_average_is_preceding [OF assms(1)])
qed

lemma pushed_window_average:
  assumes "length (pushed_window sw m) \<ge> 10"
    and "\<forall>s \<in> set (history_get (volume_history m) (pair_key (se_pair sw))). vs_volume s = v"
  shows "preceding_average (pushed_window sw m) = v"
proof -
  have "set (butlast (pushed_window sw m))
      \<subseteq> set (history_get (volume_history m) (pair_key (se_pair sw)))"
    unfolding pushed_window_def by (rule deque_append_butlast)
  then have "\<forall>s \<in> set (butlast (pushed_window sw m)). vs_volume s = v"
    using assms(2) by (meson subsetD)
  with assms(1) show ?thesis by (rule preceding_average_constant)
qed

lemma process_event_swap_quiet:
  assumes "\<not> spike_condition rd sw m"
  shows "process_event rd (Swap sw) m =
     (None, m\<lparr>volume_history := history_append 50 (pair_key (se_pair sw))
          \<lparr>vs_timestamp = se_timestamp sw, vs_volume = swap_volume_usd sw\<rparr> (volume_history m)\<rparr>)"
  by (simp add: process_event_def swap_quiet [OF assms])

lemma baseline_quiet:
  assumes "0 < v" and "volume_spike_threshold m = 2" and "swap_volume_usd sw = v"
    and "\<forall>s \<in> set (history_get (volume_history m) (pair_key (se_pair sw))). vs_volume s = v"
  shows "\<not> spike_condition rd sw m"
proof
  assume c: "spike_condition rd sw m"
  then have "length (pushed_window sw m) \<ge> 10" by (simp add: spike_condition_def Let_def)
  then have "preceding_average (pushed_window sw m) = v"
    using assms(4) by (rule pushed_window_average)
  moreover have "v > preceding_average (pushed_window sw m) * 2"
    using c assms(2,3) by (simp add: spike_condition_def Let_def)
  ultimately show False using assms(1) by simp
qed

lemma baseline_run:
  assumes "0 < v" and "volume_spike_threshold m = 2"
    and "\<forall>x \<in> set base. baseline_swap p v (snd x)"
    and "\<forall>s \<in> set (history_get (volume_history m) (pair_key p)). vs_volume s = v"
  shows "steady p v m (process_events base m)
    \<and> min 50 (length (history_get (volume_history m) (pair_key p)) + length base)
        \<le> length (history_get (volume_history (process_events base m)) (pair_key p))"
  using assms(2-)
proof (induction base arbitrary: m)
  case Nil
  then show ?case by (simp add: steady_def)
next
  case (Cons x base)
  obtain rd ev where x: "x = (rd, ev)" by (cases x)
  from Cons.prems(2) x obtain sw where ev: "ev = Swap sw" and p: "se_pair sw = p"
    and vol: "swap_volume_usd sw = v"
    by (auto simp add: baseline_swap_def split: event.splits)
  let ?s = "\<lparr>vs_timestamp = se_timestamp sw, vs_volume = swap_volume_usd sw\<rparr>"
  let ?m1 = "m\<lparr>volume_history := history_append 50 (pair_key (se_pair sw)) ?s (volume_history m)\<rparr>"
  have all0: "\<forall>s \<in> set (history_get (volume_history m) (pair_key (se_pair sw))). vs_volume s = v"
    using Cons.prems(3) by (simp only: p)
  have quiet: "\<not> spike_condition rd sw m"
    using assms(1) Cons.prems(1) vol all0 by (rule baseline_quiet)
  have step: "snd (process_event rd ev m) = ?m1"
    by (simp add: ev process_event_swap_quiet [OF quiet])
  have win1: "history_get (volume_history ?m1) (pair_key p) =
      deque_append 50 (history_get (volume_history m) (pair_key p)) ?s"
    by (simp add: history_get_append p)
  have all1: "\<forall>s \<in> set (history_get (volume_history ?m1) (pair_key p)). vs_volume s = v"
  proof
    fix s assume "s \<in> set (history_get (volume_history ?m1) (pair_key p))"
    then have "s \<in> insert ?s (set (history_get (volume_history m) (pair_key p)))"
      using deque_append_set [of 50 "history_get (volume_history m) (pair_key p)" ?s]
      unfolding win1 by blast
    then show "vs_volume s = v" using Cons.prems(3) vol by auto
  qed
  have thr1: "volume_spike_threshold ?m1 = 2" using Cons.prems(1) by simp
  have rest: "\<forall>x \<in> set base. baseline_swap p v (snd x)" using Cons.prems(2) by simp
  note ih = Cons.IH [OF thr1 rest all1]
  define a where "a = length (history_get (volume_history m) (pair_key p))"
  define b where "b = length (history_get (volume_history ?m1) (pair_key p))"
  define c where "c = length (history_get (volume_history (process_events base ?m1)) (pair_key p))"
  have len1: "min 50 (Suc a) \<le> b"
    unfolding a_def b_def win1 by (rule deque_append_grows)
  have len2: "min 50 (b + length base) \<le> c"
    using ih unfolding b_def c_def by (rule conjunct2)
  have len: "min 50 (a + length (x # base)) \<le> c"
    using len1 len2 by simp
  have run: "process_events (x # base) m = process_events base ?m1"
    by (simp add: x step)
  have st1: "steady p v ?m1 (process_events base ?m1)"
    using ih by (rule conjunct1)
  have st: "steady p v m (process_events base ?m1)"
    using st1 unfolding steady_def by simp
  show ?case
    unfolding run using st len unfolding a_def c_def by (rule conjI)
qed


lemma process_events_append:
  "process_events (xs @ ys) m = process_events ys (process_events xs m)"
  by (induction xs arbitrary: m) auto

lemma swap_active:
  "active_alerts (snd (process_event rd (Swap sw) m)) =
     (if spike_condition rd sw m
      then AList.update (volume_uuid rd)
             (volume_alert rd (se_pair sw) (swap_volume_usd sw) (preceding_average (pushed_window sw m)))
             (active_alerts m)
      else active_alerts m)"
proof (cases "spike_condition rd sw m")
  case True
  then show ?thesis by (simp add: process_event_snd swap_fires)
next
  case False
  then show ?thesis by (simp add: process_event_swap_quiet)
qed

text \<open>
  Claim C2. For every run of at least 9 swaps of one pair with a constant positive volume
  \<open>v\<close>, followed by one swap of that pair with volume \<open>3 * v\<close>, from a manager
  with the default spike threshold 2 whose window for the pair holds baseline samples
  only (none, for a new pool) and whose pool is not on cooldown: processing the run adds
  exactly one alert to the active alerts, a volume alert with average \<open>v\<close>, spike
  multiplier 3 and severity \<open>MEDIUM\<close>. In general a swap adds a volume alert exactly
  when the window, the sample of the swap included, holds at least 10 samples, the average
  of the 9 samples before the current one is positive, the current volume exceeds that
  average times the spike threshold, and the pool is not on cooldown; otherwise the active
  alerts stay as they were.
\<close>

theorem volume_spike_after_baseline:
  assumes "0 < v"
    and "volume_spike_threshold m = 2"
    and "\<forall>x \<in> set base. baseline_swap p v (snd x)"
    and "9 \<le> length base"
    and "se_pair sw = p"
    and "swap_volume_usd sw = 3 * v"
    and "\<forall>s \<in> set (history_get (volume_history m) (pair_key p)). vs_volume s = v"
    and "\<not> is_on_cooldown (now_check rd) (''volume_spike_'' @ pool_address p) m"
  shows "active_alerts (process_events (base @ [(rd, Swap sw)]) m) =
        AList.update (volume_uuid rd) (volume_alert rd p (3 * v) v) (active_alerts m)
    \<and> al_extra (volume_alert rd p (3 * v) v) = Volume p (3 * v) v 3
    \<and> al_severity (volume_alert rd p (3 * v) v) = MEDIUM
    \<and> al_event_type (volume_alert rd p (3 * v) v) = VOLUME_SPIKE
    \<and> active_alerts (snd (process_event rd0 (Swap sw0) m0)) =
        (if spike_condition rd0 sw0 m0
         then AList.update (volume_uuid rd0)
                (volume_alert rd0 (se_pair sw0) (swap_volume_usd sw0)
                   (preceding_average (pushed_window sw0 m0)))
                (active_alerts m0)
         else active_alerts m0)
    \<and> volume_spike_threshold (new_alert_manager Map.empty sink w) = 2"
proof -
  let ?mb = "process_events base m"
  have inv: "steady p v m ?mb"
    and len: "min 50 (length (history_get (volume_history m) (pair_key p)) + length base)
        \<le> length (history_get (volume_history ?mb) (pair_key p))"
    using baseline_run [OF assms(1,2,3,7)] by simp_all
  have all: "\<forall>s \<in> set (history_get (volume_history ?mb) (pair_key (se_pair sw))). vs_volume s = v"
    using inv by (simp add: steady_def assms(5))
  have nine: "9 \<le> length (history_get (volume_history ?mb) (pair_key (se_pair sw)))"
    using len assms(4) by (simp add: assms(5))
  have "min 50 (Suc (length (history_get (volume_history ?mb) (pair_key (se_pair sw)))))
      \<le> length (pushed_window sw ?mb)"
    unfolding pushed_window_def by (rule deque_append_grows)
  then have ten: "10 \<le> length (pushed_window sw ?mb)" using nine by simp
  then have avg: "preceding_average (pushed_window sw ?mb) = v"
    using all by (rule pushed_window_average)
  have cool: "\<not> is_on_cooldown (now_check rd) (''volume_spike_'' @ pool_address (se_pair sw)) ?mb"
  proof -
    have "is_on_cooldown (now_check rd) (''volume_spike_'' @ pool_address p) ?mb =
        is_on_cooldown (now_check rd) (''volume_spike_'' @ pool_address p) m"
      using inv by (intro is_on_cooldown_cong) (simp_all add: steady_def)
    then show ?thesis using assms(8) by (simp add: assms(5))
  qed
  have thr: "volume_spike_threshold ?mb = 2" using inv assms(2) by (simp add: steady_def)
  have cond: "spike_condition rd sw ?mb"
    using ten avg cool thr assms(1,6) by (simp add: spike_condition_def Let_def)
  have "active_alerts (process_events (base @ [(rd, Swap sw)]) m) =
      active_alerts (snd (process_event rd (Swap sw) ?mb))"
    by (simp add: process_events_append)
  also have "\<dots> = AList.update (volume_uuid rd) (volume_alert rd p (3 * v) v) (active_alerts ?mb)"
    using cond by (simp add: swap_active avg assms(5,6))
  also have "active_alerts ?mb = active_alerts m" using inv by (simp add: steady_def)
  finally have run: "active_alerts (process_events (base @ [(rd, Swap sw)]) m) =
        AList.update (volume_uuid rd) (volume_alert rd p (3 * v) v) (active_alerts m)" .
  have alert: "al_extra (volume_alert rd p (3 * v) v) = Volume p (3 * v) v 3"
    "al_severity (volume_alert rd p (3 * v) v) = MEDIUM"
    "al_event_type (volume_alert rd p (3 * v) v) = VOLUME_SPIKE"
    using assms(1) by (simp_all add: volume_alert_def Let_def)
  have dflt: "volume_spike_threshold (new_alert_manager Map.empty sink w) = 2"
    by (simp add: new_alert_manager_def config_get_def)
  show ?thesis
    using run alert dflt by (simp only: swap_active simp_thms)
qed

text \<open>Nine swaps of 1000 USDC and one of 3000 on a new manager.\<close>

theorem volume_spike_after_baseline_witness:
  "(0 :: real) < 1000
   \<and> volume_spike_threshold fresh_manager = 2
   \<and> baseline_swap usdc_weth 1000 (Swap (swap_of 1000))
   \<and> 9 \<le> length (replicate 9 (sample_readings, Swap (swap_of 1000)))
   \<and> swap_volume_usd (swap_of 3000) = 3 * 1000
   \<and> history_get (volume_history fresh_manager) (pair_key usdc_weth) = []
   \<and> \<not> is_on_cooldown (now_check sample_readings)
        (''volume_spike_'' @ pool_address usdc_weth) fresh_manager
   \<and> map (\<lambda>(k, a). (k, al_severity a, al_extra a))
        (active_alerts (process_events
           (replicate 9 (sample_readings, Swap (swap_of 1000)) @ [(sample_readings, Swap (swap_of 3000))])
           fresh_manager))
       = [(''id-volume'', MEDIUM, Volume usdc_weth 3000 1000 3)]"
  using volume_spike_after_baseline [of 1000 fresh_manager
      "replicate 9 (sample_readings, Swap (swap_of 1000))" usdc_weth "swap_of 3000" sample_readings
      sample_readings "swap_of 3000" fresh_manager recording_sink "[]"]
  by (simp add: baseline_swap_def swap_of_def swap_volume_usd_def usdc_def fresh_manager_def
      new_alert_manager_def config_get_def history_get_def is_on_cooldown_def sample_readings_def
      volume_alert_def Let_def)

subsection \<open>Severity of a depeg alert\<close>

lemma check_price_change_other_ids:
  assumes "k \<noteq> change_uuid rd"
  shows "map_of (active_alerts (snd (check_price_change rd pd m))) k = map_of (active_alerts m) k"
  using assms
  by (auto simp add: check_price_change_def emit_alert_keeps AList.update_conv' price_change_alert_def
      split: option.splits)

lemma price_event_depeg_entry:
  assumes "symbol (pd_token pd) = ''USDC''"
    and "\<bar>pd_price_usd pd - 1\<bar> > depeg_threshold m"
    and "\<not> is_on_cooldown (now_check rd) ''depeg_USDC'' m"
    and "depeg_uuid rd \<noteq> change_uuid rd"
  shows "map_of (active_alerts (snd (process_event rd (Price pd) m))) (depeg_uuid rd) =
     Some (depeg_alert rd pd \<bar>pd_price_usd pd - 1\<bar> (mock_pair (pd_token pd)))"
proof -
  let ?m1 = "m\<lparr>price_history := history_append 100 (symbol (pd_token pd))
          \<lparr>ps_timestamp = pd_timestamp pd, ps_price = pd_price_usd pd\<rparr> (price_history m)\<rparr>"
  let ?a = "depeg_alert rd pd \<bar>pd_price_usd pd - 1\<bar> (mock_pair (pd_token pd))"
  obtain r m2 where c: "check_stablecoin_depeg rd pd ?m1 = (r, m2)"
    by (cases "check_stablecoin_depeg rd pd ?m1") blast
  have thr: "\<bar>pd_price_usd pd - 1\<bar> > depeg_threshold ?m1" using assms(2) by simp
  have cool: "\<not> is_on_cooldown (now_check rd) ''depeg_USDC'' ?m1"
    using assms(3) by (simp add: is_on_cooldown_history)
  have "active_alerts (snd (check_stablecoin_depeg rd pd ?m1)) =
      AList.update (depeg_uuid rd) ?a (active_alerts ?m1)"
    using assms(1) thr cool by (rule depeg_fires_active)
  then have m2: "map_of (active_alerts m2) (depeg_uuid rd) = Some ?a"
    by (simp add: c AList.update_conv')
  have st: "symbol (pd_token pd) \<in> set stablecoins"
    using assms(1) by (simp add: stablecoins_def)
  have "map_of (active_alerts (snd (dispatch rd (Price pd) m))) (depeg_uuid rd) = Some ?a"
  proof (cases r)
    case None
    then have "dispatch rd (Price pd) m = check_price_change rd pd m2"
      using c st by (simp add: dispatch_def process_price_data_def Let_def)
    then show ?thesis
      using check_price_change_other_ids [OF assms(4), of pd m2] m2 by simp
  next
    case (Some e)
    then have "dispatch rd (Price pd) m = (Some e, m2)"
      using c st by (simp add: dispatch_def process_price_data_def Let_def)
    then show ?thesis using m2 by simp
  qed
  then show ?thesis by (simp add: process_event_snd)
qed

text \<open>
  Claim C3 gives, for every recognized stablecoin that is not on cooldown, a \<open>HIGH\<close> depeg
  alert at a price of 0.88. The rule builds a companion pair for \<open>USDC\<close> only and drops
  the alert otherwise: USDT at 0.88 on a new manager leaves no active alert.
\<close>

theorem depeg_severity_counterexample:
  "symbol (pd_token (price_update usdt (88 / 100))) \<in> set stablecoins
   \<and> \<not> is_on_cooldown (now_check sample_readings) ''depeg_USDT'' fresh_manager
   \<and> get_active_alerts (snd (process_event sample_readings
         (Price (price_update usdt (88 / 100))) fresh_manager)) = []"
  by (simp add: price_update_def usdt_def stablecoins_def fresh_manager_def new_alert_manager_def
      process_event_def dispatch_def process_price_data_def Let_def check_price_change_def
      check_stablecoin_depeg_def is_on_cooldown_def config_get_def get_active_alerts_def)

text \<open>
  Claim C3, amended. With the default threshold 0.05, for every price update of \<open>USDC\<close>
  that is not on cooldown, the depeg rule puts into the active alerts a depeg alert of
  severity \<open>HIGH\<close> at a price of 0.88 (deviation 0.12) and of severity \<open>CRITICAL\<close> at a
  price of 0.70 (deviation 0.30), and after \<open>process_event\<close> the alert is the active
  alert of its id, the id of the price-change alert of the same update being another one;
  at a price of 0.98 (deviation 0.02) the rule leaves the manager unchanged for every
  token, and for a symbol other than \<open>USDC\<close> it does so at every price.
\<close>

theorem depeg_severity_by_price:
  assumes "depeg_threshold m = 5 / 100"
  shows "(symbol (pd_token pd) = ''USDC'' \<and> \<not> is_on_cooldown (now_check rd) ''depeg_USDC'' m
          \<and> pd_price_usd pd = 88 / 100 \<longrightarrow>
            active_alerts (snd (check_stablecoin_depeg rd pd m)) =
              AList.update (depeg_uuid rd) (depeg_alert rd pd (12 / 100) (mock_pair (pd_token pd)))
                (active_alerts m)
            \<and> (depeg_uuid rd \<noteq> change_uuid rd \<longrightarrow>
                 map_of (active_alerts (snd (process_event rd (Price pd) m))) (depeg_uuid rd) =
                   Some (depeg_alert rd pd (12 / 100) (mock_pair (pd_token pd))))
            \<and> al_severity (depeg_alert rd pd (12 / 100) (mock_pair (pd_token pd))) = HIGH
            \<and> al_event_type (depeg_alert rd pd (12 / 100) (mock_pair (pd_token pd))) = DEPEG_ALERT)
    \<and> (symbol (pd_token pd) = ''USDC'' \<and> \<not> is_on_cooldown (now_check rd) ''depeg_USDC'' m
          \<and> pd_price_usd pd = 70 / 100 \<longrightarrow>
            active_alerts (snd (check_stablecoin_depeg rd pd m)) =
              AList.update (depeg_uuid rd) (depeg_alert rd pd (30 / 100) (mock_pair (pd_token pd)))
                (active_alerts m)
            \<and> (depeg_uuid rd \<noteq> change_uuid rd \<longrightarrow>
                 map_of (active_alerts (snd (process_event rd (Price pd) m))) (depeg_uuid rd) =
                   Some (depeg_alert rd pd (30 / 100) (mock_pair (pd_token pd))))
            \<and> al_severity (depeg_alert rd pd (30 / 100) (mock_pair (pd_token pd))) = CRITICAL
            \<and> al_event_type (depeg_alert rd pd (30 / 100) (mock_pair (pd_token pd))) = DEPEG_ALERT)
    \<and> (pd_price_usd pd = 98 / 100 \<longrightarrow> check_stablecoin_depeg rd pd m = (None, m))
    \<and> (symbol (pd_token pd) \<noteq> ''USDC'' \<longrightarrow> check_stablecoin_depeg rd pd m = (None, m))"
proof -
  have fire: "active_alerts (snd (check_stablecoin_depeg rd pd m)) =
        AList.update (depeg_uuid rd) (depeg_alert rd pd d (mock_pair (pd_token pd))) (active_alerts m)
      \<and> (depeg_uuid rd \<noteq> change_uuid rd \<longrightarrow>
           map_of (active_alerts (snd (process_event rd (Price pd) m))) (depeg_uuid rd) =
             Some (depeg_alert rd pd d (mock_pair (pd_token pd))))"
    if u: "symbol (pd_token pd) = ''USDC''"
      and c: "\<not> is_on_cooldown (now_check rd) ''depeg_USDC'' m"
      and dev: "\<bar>pd_price_usd pd - 1\<bar> = d" and big: "d > 5 / 100" for d
  proof -
    have thr: "\<bar>pd_price_usd pd - 1\<bar> > depeg_threshold m" using dev big assms by simp
    show ?thesis
      using depeg_fires_active [OF u thr c] price_event_depeg_entry [OF u thr c]
      unfolding dev by blast
  qed
  have high: "al_severity (depeg_alert rd pd (12 / 100) rp) = HIGH"
    and critical: "al_severity (depeg_alert rd pd (30 / 100) rp) = CRITICAL"
    and kind: "al_event_type (depeg_alert rd pd d rp) = DEPEG_ALERT" for rp d
    by (simp_all add: depeg_alert_def depeg_severity_def)
  have quiet: "check_stablecoin_depeg rd pd m = (None, m)" if "pd_price_usd pd = 98 / 100"
  proof (rule depeg_within_threshold)
    show "\<not> \<bar>pd_price_usd pd - 1\<bar> > depeg_threshold m" using that assms by simp
  qed
  have a: "\<bar>pd_price_usd pd - 1\<bar> = 12 / 100" if "pd_price_usd pd = 88 / 100"
    using that by simp
  have b: "\<bar>pd_price_usd pd - 1\<bar> = 30 / 100" if "pd_price_usd pd = 70 / 100"
    using that by simp
  show ?thesis
    using fire [OF _ _ a] fire [OF _ _ b] high critical kind quiet depeg_not_usdc [of pd rd m]
    by simp
qed

text \<open>USDC at the three prices of the claim, and USDT at 0.70, on a new manager.\<close>

theorem depeg_severity_by_price_witness:
  "depeg_threshold fresh_manager = 5 / 100
   \<and> symbol (pd_token (price_update usdc (88 / 100))) = ''USDC''
   \<and> \<not> is_on_cooldown (now_check sample_readings) ''depeg_USDC'' fresh_manager
   \<and> depeg_uuid sample_readings \<noteq> change_uuid sample_readings
   \<and> map (\<lambda>(k, a). (k, al_event_type a, al_severity a))
        (active_alerts (snd (check_stablecoin_depeg sample_readings (price_update usdc (88 / 100)) fresh_manager)))
       = [(''id-depeg'', DEPEG_ALERT, HIGH)]
   \<and> map_option al_severity (map_of (active_alerts (snd (process_event sample_readings
        (Price (price_update usdc (88 / 100))) fresh_manager))) ''id-depeg'') = Some HIGH
   \<and> map (\<lambda>(k, a). (k, al_event_type a, al_severity a))
        (active_alerts (snd (check_stablecoin_depeg sample_readings (price_update usdc (70 / 100)) fresh_manager)))
       = [(''id-depeg'', DEPEG_ALERT, CRITICAL)]
   \<and> map_option al_severity (map_of (active_alerts (snd (process_event sample_readings
        (Price (price_update usdc (70 / 100))) fresh_manager))) ''id-depeg'') = Some CRITICAL
   \<and> check_stablecoin_depeg sample_readings (price_update usdc (98 / 100)) fresh_manager
       = (None, fresh_manager)
   \<and> check_stablecoin_depeg sample_readings (price_update usdt (70 / 100)) fresh_manager
       = (None, fresh_manager)"
  using depeg_severity_by_price [of fresh_manager "price_update usdc (88 / 100)" sample_readings]
        depeg_severity_by_price [of fresh_manager "price_update usdc (70 / 100)" sample_readings]
        depeg_severity_by_price [of fresh_manager "price_update usdc (98 / 100)" sample_readings]
        depeg_severity_by_price [of fresh_manager "price_update usdt (70 / 100)" sample_readings]
  by (simp add: price_update_def usdc_def usdt_def fresh_manager_def new_alert_manager_def
      is_on_cooldown_def config_get_def sample_readings_def depeg_alert_def depeg_severity_def)

subsection \<open>The cooldown window of the depeg rule\<close>

text \<open>
  Claim C4 promises, for every depeg cooldown key, exactly one alert when the key fires
  twice within the cooldown window. For the key of USDT two updates at 0.70 within five
  minutes leave no alert at all, since the rule drops the alert when it has no pair.
\<close>

theorem depeg_cooldown_window_counterexample:
  "symbol (pd_token (price_update usdt (7 / 10))) \<in> set stablecoins
   \<and> \<bar>pd_price_usd (price_update usdt (7 / 10)) - 1\<bar> > depeg_threshold fresh_manager
   \<and> now_check (readings_at 300000000 ''b'') - now_mark (readings_at 0 ''a'')
        < cooldown_duration fresh_manager
   \<and> get_active_alerts (process_events
        [(readings_at 0 ''a'', Price (price_update usdt (7 / 10))),
         (readings_at 300000000 ''b'', Price (price_update usdt (7 / 10)))] fresh_manager) = []"
  by (simp add: price_update_def usdt_def stablecoins_def fresh_manager_def new_alert_manager_def
      process_event_def dispatch_def process_price_data_def Let_def check_price_change_def
      check_stablecoin_depeg_def is_on_cooldown_def config_get_def get_active_alerts_def
      readings_at_def minutes_def)

text \<open>
  Claim C4, amended. For the depeg key of \<open>USDC\<close>, the one key the rule ever records:
  when an update beyond the threshold fires the rule and the emission of its alert
  returns (the write to the sink returns and no callback raises an exception outside
  \<^verbatim>\<open>Exception\<close>), a second update read within the cooldown duration of the recorded time leaves
  the manager unchanged, so that there is exactly one alert, and an update read once the
  duration has elapsed adds a second alert; a key with no recorded firing is never on
  cooldown, and the duration of a new manager is 10 minutes.
\<close>

theorem depeg_cooldown_window:
  assumes "symbol (pd_token pd1) = ''USDC''"
    and "symbol (pd_token pd2) = ''USDC''"
    and "symbol (pd_token pd3) = ''USDC''"
    and "\<bar>pd_price_usd pd1 - 1\<bar> > depeg_threshold m"
    and "\<bar>pd_price_usd pd3 - 1\<bar> > depeg_threshold m"
    and "\<not> is_on_cooldown (now_check rd1) ''depeg_USDC'' m"
    and "fst (emit_alert
               (depeg_alert rd1 pd1 \<bar>pd_price_usd pd1 - 1\<bar> (mock_pair (pd_token pd1))) m) = None"
  shows "active_alerts (snd (check_stablecoin_depeg rd1 pd1 m)) =
        AList.update (depeg_uuid rd1)
          (depeg_alert rd1 pd1 \<bar>pd_price_usd pd1 - 1\<bar> (mock_pair (pd_token pd1))) (active_alerts m)
    \<and> (now_check rd2 - now_mark rd1 < cooldown_duration m \<longrightarrow>
          check_stablecoin_depeg rd2 pd2 (snd (check_stablecoin_depeg rd1 pd1 m)) =
            (None, snd (check_stablecoin_depeg rd1 pd1 m)))
    \<and> (\<not> now_check rd3 - now_mark rd1 < cooldown_duration m \<longrightarrow>
          active_alerts (snd (check_stablecoin_depeg rd3 pd3 (snd (check_stablecoin_depeg rd1 pd1 m)))) =
            AList.update (depeg_uuid rd3)
              (depeg_alert rd3 pd3 \<bar>pd_price_usd pd3 - 1\<bar> (mock_pair (pd_token pd3)))
              (active_alerts (snd (check_stablecoin_depeg rd1 pd1 m))))
    \<and> (map_of (alert_cooldown m) k = None \<longrightarrow> \<not> is_on_cooldown now k m)
    \<and> cooldown_duration (new_alert_manager cfg sink w) = minutes 10
    \<and> (fst (emit_alert
               (depeg_alert rd1 pd1 \<bar>pd_price_usd pd1 - 1\<bar> (mock_pair (pd_token pd1))) m) = None
         \<longleftrightarrow> emission_returns
               (depeg_alert rd1 pd1 \<bar>pd_price_usd pd1 - 1\<bar> (mock_pair (pd_token pd1))) m)"
proof -
  let ?m1 = "snd (check_stablecoin_depeg rd1 pd1 m)"
  have first: "active_alerts ?m1 =
        AList.update (depeg_uuid rd1)
          (depeg_alert rd1 pd1 \<bar>pd_price_usd pd1 - 1\<bar> (mock_pair (pd_token pd1))) (active_alerts m)"
    using assms(1,4,6) by (rule depeg_fires_active)
  have mark: "alert_cooldown ?m1 = AList.update ''depeg_USDC'' (now_mark rd1) (alert_cooldown m)"
    using depeg_fires_cooldown [OF assms(1,4,6)] assms(7) by simp
  have cool: "is_on_cooldown now ''depeg_USDC'' ?m1 = (now - now_mark rd1 < cooldown_duration m)" for now
    using mark by (rule is_on_cooldown_after_mark) (rule check_stablecoin_depeg_config)
  have second: "check_stablecoin_depeg rd2 pd2 ?m1 = (None, ?m1)"
    if "now_check rd2 - now_mark rd1 < cooldown_duration m"
    using that assms(2) by (intro depeg_on_cooldown) (simp add: cool)
  have third: "active_alerts (snd (check_stablecoin_depeg rd3 pd3 ?m1)) =
            AList.update (depeg_uuid rd3)
              (depeg_alert rd3 pd3 \<bar>pd_price_usd pd3 - 1\<bar> (mock_pair (pd_token pd3)))
              (active_alerts ?m1)"
    if "\<not> now_check rd3 - now_mark rd1 < cooldown_duration m"
    using assms(3)
  proof (rule depeg_fires_active)
    show "\<bar>pd_price_usd pd3 - 1\<bar> > depeg_threshold ?m1"
      using assms(5) by (simp add: check_stablecoin_depeg_config)
    show "\<not> is_on_cooldown (now_check rd3) ''depeg_USDC'' ?m1"
      using that by (simp add: cool)
  qed
  have absent: "\<not> is_on_cooldown now k m" if "map_of (alert_cooldown m) k = None"
    using that by (simp add: is_on_cooldown_def)
  have dur: "cooldown_duration (new_alert_manager cfg sink w) = minutes 10"
    by (simp add: new_alert_manager_def)
  show ?thesis using first second third absent dur emit_alert_returns by blast
qed

text \<open>
  USDC at 0.70 three times on a new manager: at time 0, five minutes later, and when ten
  minutes have passed since the marking.
\<close>

theorem depeg_cooldown_window_witness:
  "symbol (pd_token (price_update usdc (7 / 10))) = ''USDC''
   \<and> \<bar>pd_price_usd (price_update usdc (7 / 10)) - 1\<bar> > depeg_threshold fresh_manager
   \<and> \<not> is_on_cooldown (now_check (readings_at 0 ''a'')) ''depeg_USDC'' fresh_manager
   \<and> emission_returns (depeg_alert (readings_at 0 ''a'') (price_update usdc (7 / 10))
        \<bar>pd_price_usd (price_update usdc (7 / 10)) - 1\<bar> (mock_pair usdc)) fresh_manager
   \<and> map_of (alert_cooldown fresh_manager) ''depeg_USDC'' = None
   \<and> now_check (readings_at 300000000 ''b'') - now_mark (readings_at 0 ''a'')
        < cooldown_duration fresh_manager
   \<and> \<not> now_check (readings_at 600000002 ''c'') - now_mark (readings_at 0 ''a'')
        < cooldown_duration fresh_manager
   \<and> map fst (active_alerts (snd (check_stablecoin_depeg (readings_at 0 ''a'')
        (price_update usdc (7 / 10)) fresh_manager))) = [''depeg-a'']
   \<and> map fst (active_alerts (snd (check_stablecoin_depeg (readings_at 300000000 ''b'')
        (price_update usdc (7 / 10))
        (snd (check_stablecoin_depeg (readings_at 0 ''a'') (price_update usdc (7 / 10)) fresh_manager)))))
       = [''depeg-a'']
   \<and> map fst (active_alerts (snd (check_stablecoin_depeg (readings_at 600000002 ''c'')
        (price_update usdc (7 / 10))
        (snd (check_stablecoin_depeg (readings_at 0 ''a'') (price_update usdc (7 / 10)) fresh_manager)))))
       = [''depeg-a'', ''depeg-c'']"
  using depeg_cooldown_window [of "price_update usdc (7 / 10)" "price_update usdc (7 / 10)"
      "price_update usdc (7 / 10)" fresh_manager "readings_at 0 ''a''"
      "readings_at 300000000 ''b''" "readings_at 600000002 ''c''" "''depeg_USDC''" 0
      Map.empty recording_sink "[]"]
  by (simp add: price_update_def usdc_def fresh_manager_def new_alert_manager_def
      is_on_cooldown_def config_get_def readings_at_def depeg_alert_def minutes_def
      recording_sink_def emission_returns_def emit_alert_def Let_def)

subsection \<open>Large liquidity removals\<close>

text \<open>
  Claim C5. For every liquidity event, the large-removal rule emits an alert only when the
  kind of the event is \<open>LIQUIDITY_REMOVE\<close> and the absolute value of the liquidity delta
  is strictly above 1,000,000; the alert it emits has severity \<open>HIGH\<close>. In particular a
  removal of 1,500,000 puts a \<open>HIGH\<close> alert into the active alerts, a removal of 999,999
  leaves the manager as it was, and so does an addition of any size. An alert is emitted
  when it enters \<open>active_alerts\<close>, which \<^verbatim>\<open>_emit_alert\<close> does before it calls the sink.
\<close>

theorem liquidity_removal_rule:
  "(le_event_type ev = LIQUIDITY_REMOVE \<and> \<bar>le_liquidity_delta ev\<bar> > 1000000 \<longrightarrow>
      active_alerts (snd (process_event rd (Liquidity ev) m)) =
        AList.update (liquidity_uuid rd) (liquidity_alert rd ev \<bar>le_liquidity_delta ev\<bar>) (active_alerts m)
      \<and> al_severity (liquidity_alert rd ev \<bar>le_liquidity_delta ev\<bar>) = HIGH)
   \<and> (\<not> (le_event_type ev = LIQUIDITY_REMOVE \<and> \<bar>le_liquidity_delta ev\<bar> > 1000000) \<longrightarrow>
      process_event rd (Liquidity ev) m = (None, m))
   \<and> (le_event_type ev = LIQUIDITY_REMOVE \<and> \<bar>le_liquidity_delta ev\<bar> = 1500000 \<longrightarrow>
      active_alerts (snd (process_event rd (Liquidity ev) m)) =
        AList.update (liquidity_uuid rd) (liquidity_alert rd ev 1500000) (active_alerts m)
      \<and> al_severity (liquidity_alert rd ev 1500000) = HIGH)
   \<and> (le_event_type ev = LIQUIDITY_REMOVE \<and> \<bar>le_liquidity_delta ev\<bar> = 999999 \<longrightarrow>
      process_event rd (Liquidity ev) m = (None, m))
   \<and> (le_event_type ev = LIQUIDITY_ADD \<longrightarrow> process_event rd (Liquidity ev) m = (None, m))"
proof -
  have fire: "active_alerts (snd (process_event rd (Liquidity ev) m)) =
        AList.update (liquidity_uuid rd) (liquidity_alert rd ev \<bar>le_liquidity_delta ev\<bar>) (active_alerts m)"
    if "le_event_type ev = LIQUIDITY_REMOVE" "\<bar>le_liquidity_delta ev\<bar> > 1000000"
  proof -
    have "dispatch rd (Liquidity ev) m = emit_alert (liquidity_alert rd ev \<bar>le_liquidity_delta ev\<bar>) m"
      using that by (simp add: dispatch_def process_liquidity_event_def)
    then have "active_alerts (snd (process_event rd (Liquidity ev) m)) =
        active_alerts (snd (emit_alert (liquidity_alert rd ev \<bar>le_liquidity_delta ev\<bar>) m))"
      by (simp add: process_event_def split: prod.splits option.splits)
    then show ?thesis by (simp add: emit_alert_keeps liquidity_alert_def)
  qed
  have quiet: "process_event rd (Liquidity ev) m = (None, m)"
    if "\<not> (le_event_type ev = LIQUIDITY_REMOVE \<and> \<bar>le_liquidity_delta ev\<bar> > 1000000)"
    using that by (auto simp add: process_event_def dispatch_def process_liquidity_event_def)
  have sev: "al_severity (liquidity_alert rd ev x) = HIGH" for x
    by (simp add: liquidity_alert_def)
  show ?thesis
    using fire quiet sev by auto
qed

text \<open>The three cases of the claim on a new manager.\<close>

theorem liquidity_removal_rule_witness:
  "le_event_type (removal (- 1500000)) = LIQUIDITY_REMOVE
   \<and> \<bar>le_liquidity_delta (removal (- 1500000))\<bar> = 1500000
   \<and> map (\<lambda>(k, a). (k, al_severity a))
        (active_alerts (snd (process_event sample_readings (Liquidity (removal (- 1500000))) fresh_manager)))
       = [(''id-liquidity'', HIGH)]
   \<and> le_event_type (removal 999999) = LIQUIDITY_REMOVE
   \<and> \<bar>le_liquidity_delta (removal 999999)\<bar> = 999999
   \<and> active_alerts (snd (process_event sample_readings (Liquidity (removal 999999)) fresh_manager)) = []
   \<and> le_event_type ((removal 5000000)\<lparr>le_event_type := LIQUIDITY_ADD\<rparr>) = LIQUIDITY_ADD
   \<and> active_alerts (snd (process_event sample_readings
         (Liquidity ((removal 5000000)\<lparr>le_event_type := LIQUIDITY_ADD\<rparr>)) fresh_manager)) = []"
  using liquidity_removal_rule [of "removal (- 1500000)" sample_readings fresh_manager]
        liquidity_removal_rule [of "removal 999999" sample_readings fresh_manager]
        liquidity_removal_rule [of "(removal 5000000)\<lparr>le_event_type := LIQUIDITY_ADD\<rparr>" sample_readings fresh_manager]
  by (simp add: removal_def fresh_manager_def new_alert_manager_def sample_readings_def liquidity_alert_def)

subsection \<open>Resolving an alert\<close>

lemma delete_as_filter: "AList.delete i al = filter (\<lambda>(k, _). k \<noteq> i) al"
  by (induction al) auto

text \<open>
  Claim C6. For every alert id: resolving an id that is not a key of the active alerts
  returns normally and leaves the whole manager unchanged; resolving an id that is a key
  marks the alert resolved, hands the resolved record to the persistence sink and, the
  write having returned, removes the id from the active alerts, so that
  \<open>get_active_alerts\<close> returns the other alerts in their order.
\<close>

theorem resolve_alert_spec:
  "(map_of (active_alerts m) i = None \<longrightarrow> resolve_alert now i m = (None, m))
   \<and> (\<forall>a w. map_of (active_alerts m) i = Some a
          \<and> db_insert_alert m (resolve now a) (world m) = (None, w) \<longrightarrow>
        fst (resolve_alert now i m) = None
        \<and> al_resolved (resolve now a)
        \<and> world (snd (resolve_alert now i m)) = w
        \<and> active_alerts (snd (resolve_alert now i m)) = AList.delete i (active_alerts m)
        \<and> map_of (active_alerts (snd (resolve_alert now i m))) i = None
        \<and> get_active_alerts (snd (resolve_alert now i m)) =
            map snd (filter (\<lambda>(k, _). k \<noteq> i) (active_alerts m)))"
proof (intro conjI allI impI)
  assume "map_of (active_alerts m) i = None"
  then show "resolve_alert now i m = (None, m)"
    by (simp add: resolve_alert_def)
next
  fix a w
  assume h: "map_of (active_alerts m) i = Some a
    \<and> db_insert_alert m (resolve now a) (world m) = (None, w)"
  then have r: "resolve_alert now i m =
      (None, m\<lparr>active_alerts := AList.update i (resolve now a) (active_alerts m)\<rparr>
               \<lparr>world := w,
                active_alerts := AList.delete i (AList.update i (resolve now a) (active_alerts m)),
                logged := logged m @ [(INFO, ''Alert resolved: '' @ al_title (resolve now a))]\<rparr>)"
    by (simp add: resolve_alert_def Let_def)
  show "fst (resolve_alert now i m) = None" by (simp add: r)
  show "al_resolved (resolve now a)" by (simp add: resolve_def)
  show "world (snd (resolve_alert now i m)) = w" by (simp add: r)
  show d: "active_alerts (snd (resolve_alert now i m)) = AList.delete i (active_alerts m)"
    by (simp add: r AList.delete_update_same)
  show "map_of (active_alerts (snd (resolve_alert now i m))) i = None"
    by (simp add: d AList.delete_conv')
  show "get_active_alerts (snd (resolve_alert now i m)) =
      map snd (filter (\<lambda>(k, _). k \<noteq> i) (active_alerts m))"
    by (simp add: get_active_alerts_def d delete_as_filter)
qed

text \<open>An id that is absent and the id of the one active alert.\<close>

theorem resolve_alert_spec_witness:
  "map_of (active_alerts one_active) ''id-other'' = None
   \<and> resolve_alert 5000 ''id-other'' one_active = (None, one_active)
   \<and> map_of (active_alerts one_active) ''id-liquidity'' = Some sample_alert
   \<and> db_insert_alert one_active (resolve 5000 sample_alert) (world one_active)
       = (None, [''db:id-liquidity'', ''db:id-liquidity''])
   \<and> get_active_alerts one_active = [sample_alert]
   \<and> get_active_alerts (snd (resolve_alert 5000 ''id-liquidity'' one_active)) = []
   \<and> world (snd (resolve_alert 5000 ''id-liquidity'' one_active))
       = [''db:id-liquidity'', ''db:id-liquidity'']"
  using resolve_alert_spec [of one_active "''id-other''" 5000]
        resolve_alert_spec [of one_active "''id-liquidity''" 5000]
  by (simp add: one_active_def emit_alert_def fresh_manager_def new_alert_manager_def recording_sink_def
      sample_alert_def liquidity_alert_def sample_readings_def get_active_alerts_def resolve_def)

subsection \<open>Delivery to the callbacks\<close>






subsection \<open>Rolling windows\<close>

lemma run_price_window:
  "history_get (price_history (process_events evs m)) k =
     foldl (deque_append 100) (history_get (price_history m) k) (price_samples k evs)"
  by (induction k evs arbitrary: m rule: price_samples.induct)
     (simp_all add: process_event_histories history_get_append)

lemma run_volume_window:
  "history_get (volume_history (process_events evs m)) k =
     foldl (deque_append 50) (history_get (volume_history m) k) (volume_samples k evs)"
  by (induction k evs arbitrary: m rule: volume_samples.induct)
     (simp_all add: process_event_histories history_get_append)

text \<open>
  Claim C8. For every key and every sequence of pushes, a rolling window of capacity \<open>n\<close>
  holds the last \<open>n\<close> samples pushed, in the order they were pushed: never more than
  \<open>n\<close>, and a push into a full window drops the oldest sample and nothing else. In
  the manager, after any run from a new manager, the price window of a token symbol is
  the last 100 price samples of that symbol and the volume window of a pair key is the
  last 50 volume samples of that pair.
\<close>

theorem rolling_windows_fifo:
  "foldl (deque_append n) [] xs = drop (length xs - n) xs
   \<and> length (foldl (deque_append n) [] xs) \<le> n
   \<and> deque_append (length d) d x = tl (d @ [x])
   \<and> history_get (price_history (process_events evs (new_alert_manager cfg sink w))) k =
       drop (length (price_samples k evs) - 100) (price_samples k evs)
   \<and> length (history_get (price_history (process_events evs (new_alert_manager cfg sink w))) k) \<le> 100
   \<and> history_get (volume_history (process_events evs (new_alert_manager cfg sink w))) k =
       drop (length (volume_samples k evs) - 50) (volume_samples k evs)
   \<and> length (history_get (volume_history (process_events evs (new_alert_manager cfg sink w))) k) \<le> 50"
proof -
  have b: "deque_append (length d) d x = tl (d @ [x])"
    by (simp add: deque_append_def Let_def)
  have p: "history_get (price_history (new_alert_manager cfg sink w)) k = []"
    and v: "history_get (volume_history (new_alert_manager cfg sink w)) k = []"
    by (simp_all add: new_alert_manager_def history_get_def)
  show ?thesis
    by (simp only: deque_pushes_empty b run_price_window run_volume_window p v length_last_part simp_thms)
qed

text \<open>Five pushes into a window of capacity three.\<close>

theorem rolling_windows_fifo_witness:
  "foldl (deque_append 3) [] [1, 2, 3, 4, 5 :: nat] = [3, 4, 5]
   \<and> deque_append 3 [1, 2, 3 :: nat] 4 = [2, 3, 4]
   \<and> history_get (price_history (process_events
         [(sample_readings, Price \<lparr>pd_timestamp = 7, pd_token = usdc, pd_price_usd = 1,
             pd_price_change_24h = None, pd_volume_24h = None\<rparr>)] fresh_manager)) ''USDC''
       = [\<lparr>ps_timestamp = 7, ps_price = 1\<rparr>]"
  using rolling_windows_fifo [of 3 "[1, 2, 3, 4, 5 :: nat]" "[1, 2, 3 :: nat]" 4
      "[(sample_readings, Price \<lparr>pd_timestamp = 7, pd_token = usdc, pd_price_usd = 1,
             pd_price_change_24h = None, pd_volume_24h = None\<rparr>)]" Map.empty recording_sink "[]" "''USDC''"]
  by (simp add: fresh_manager_def usdc_def deque_append_def Let_def)

subsection \<open>Stablecoins other than USDC\<close>

text \<open>
  Claim C9. For every price update of a token whose symbol is not \<open>USDC\<close>, and so for
  the recognized stablecoins \<open>USDT\<close>, \<open>DAI\<close> and \<open>FRAX\<close>, whatever the deviation from 1:
  the depeg rule returns the manager unchanged, processing the event leaves the cooldown
  dictionary as it was, and every alert that is active afterwards was active before or is
  a price-change alert, never a depeg alert.
\<close>

theorem no_depeg_alert_unless_usdc:
  assumes "symbol (pd_token pd) \<noteq> ''USDC''"
  shows "check_stablecoin_depeg rd pd m = (None, m)
    \<and> alert_cooldown (snd (process_event rd (Price pd) m)) = alert_cooldown m
    \<and> (\<forall>a \<in> set (get_active_alerts (snd (process_event rd (Price pd) m))).
          a \<in> set (get_active_alerts m) \<or> al_event_type a = PRICE_CHANGE)"
proof -
  let ?m1 = "m\<lparr>price_history := history_append 100 (symbol (pd_token pd))
          \<lparr>ps_timestamp = pd_timestamp pd, ps_price = pd_price_usd pd\<rparr> (price_history m)\<rparr>"
  have d: "dispatch rd (Price pd) m = check_price_change rd pd ?m1"
    by (rule price_event_without_depeg) (rule depeg_not_usdc [OF assms])
  have c: "alert_cooldown (snd (process_event rd (Price pd) m)) = alert_cooldown m"
    using check_price_change_keepsD(3) [of rd pd ?m1]
    by (cases "check_price_change rd pd ?m1") (simp add: process_event_snd d)
  have a: "a \<in> set (get_active_alerts m) \<or> al_event_type a = PRICE_CHANGE"
    if "a \<in> set (get_active_alerts (snd (process_event rd (Price pd) m)))" for a
  proof -
    from that have "a \<in> set (get_active_alerts (snd (check_price_change rd pd ?m1)))"
      by (simp add: get_active_alerts_def process_event_snd d)
    from check_price_change_active [OF this] show ?thesis
      by (simp add: get_active_alerts_def)
  qed
  show ?thesis using depeg_not_usdc [OF assms] c a by blast
qed

text \<open>USDT at half a dollar on a new manager.\<close>

theorem no_depeg_alert_unless_usdc_witness:
  "symbol (pd_token (price_update usdt (1 / 2))) \<noteq> ''USDC''
   \<and> symbol (pd_token (price_update usdt (1 / 2))) \<in> set stablecoins
   \<and> check_stablecoin_depeg sample_readings (price_update usdt (1 / 2)) fresh_manager
        = (None, fresh_manager)
   \<and> alert_cooldown (snd (process_event sample_readings (Price (price_update usdt (1 / 2))) fresh_manager)) = []
   \<and> get_active_alerts (snd (process_event sample_readings (Price (price_update usdt (1 / 2))) fresh_manager)) = []"
  using no_depeg_alert_unless_usdc [of "price_update usdt (1 / 2)" sample_readings fresh_manager]
  by (simp add: price_update_def usdt_def stablecoins_def fresh_manager_def new_alert_manager_def
      process_event_def dispatch_def process_price_data_def Let_def check_price_change_def
      check_stablecoin_depeg_def get_active_alerts_def)

subsection \<open>What the entry point catches\<close>













end
